theory Spec2Isabelle
  imports Main "HOL-Library.Word" "HOL-Library.Sublist" "HOL-Library.AList"
begin

section \<open>The clone manager of the Seafile daemon (daemon/clone-mgr.c)\<close>

text \<open>
  The clone manager keeps one \<open>CloneTask\<close> per repository in a hash table, mirrors the
  running tasks in the table \<open>CloneTasks\<close> of clone.db, and moves each task through its
  states from the callbacks of the job manager, the transfer manager and the repo manager.

  The model keeps the functions of clone-mgr.c with their names. What the file calls but
  does not define (GLib, ccnet, sqlite, the other managers of the daemon) is not modelled:
  what such a call returns is read from a record \<open>extern\<close>, and a call that changes
  something outside the clone manager is appended to the log \<open>calls\<close>.
\<close>

subsection \<open>Data\<close>

text \<open>The states and error kinds, in the order of \<open>state_str\<close> and \<open>error_str\<close>.\<close>

datatype clone_state =
    CLONE_STATE_INIT
  | CLONE_STATE_CONNECT
  | CLONE_STATE_INDEX
  | CLONE_STATE_FETCH
  | CLONE_STATE_CHECKOUT
  | CLONE_STATE_MERGE
  | CLONE_STATE_DONE
  | CLONE_STATE_ERROR
  | CLONE_STATE_CANCEL_PENDING
  | CLONE_STATE_CANCELED

datatype clone_error =
    CLONE_OK
  | CLONE_ERROR_CONNECT
  | CLONE_ERROR_INDEX
  | CLONE_ERROR_FETCH
  | CLONE_ERROR_PASSWD
  | CLONE_ERROR_CHECKOUT
  | CLONE_ERROR_MERGE
  | CLONE_ERROR_INTERNAL

text \<open>
  \<open>CloneTask\<close>. A pointer that may be NULL is an option (\<open>passwd\<close>, \<open>tx_id\<close>). The
  buffer \<open>root_id\<close> holds a C string: the empty string is the buffer whose first byte
  is 0.
\<close>

record CloneTask =
  repo_id :: string
  peer_id :: string
  repo_name :: string
  token :: string
  worktree :: string
  passwd :: "string option"
  peer_addr :: string
  peer_port :: string
  email :: string
  state :: clone_state
  error :: clone_error
  tx_id :: "string option"
  root_id :: string

text \<open>A row of the table \<open>CloneTasks\<close>, with the columns of its CREATE TABLE statement.\<close>

record db_row =
  c_repo_id :: string
  c_repo_name :: string
  c_token :: string
  c_dest_id :: string
  c_worktree_parent :: string
  c_passwd :: "string option"
  c_server_addr :: string
  c_server_port :: string
  c_email :: string

text \<open>The fields of \<open>SeafRepo\<close>, \<open>SeafBranch\<close> and \<open>SeafCommit\<close> that clone-mgr.c reads.\<close>

record SeafRepo =
  r_id :: string
  r_head :: "string option"
  r_encrypted :: bool
  r_enc_version :: int
  r_worktree :: "string option"

record SeafBranch =
  b_commit_id :: string

record SeafCommit =
  k_commit_id :: string
  k_root_id :: string
  k_creator_name :: string

datatype peer_net_state = PEER_DOWN | PEER_CONNECTED

datatype tx_task_state =
  TASK_STATE_NORMAL | TASK_STATE_CANCELED | TASK_STATE_FINISHED | TASK_STATE_ERROR

record TransferTask =
  t_is_clone :: bool
  t_repo_id :: string
  t_state :: tx_task_state

datatype lstat_result = ENOENT | OTHER_ERRNO | ST_MODE bool

datatype db_stmt = CREATE_TABLE | REPLACE_INTO db_row | DELETE_FROM string

text \<open>
  What the calls out of clone-mgr.c return. An \<open>int\<close> is the return code of the C
  function; an option is a pointer that may be NULL. \<open>g_dir_open\<close> gives the names that
  \<open>g_dir_read_name\<close> would then read. \<open>sqlite_foreach_selected_row\<close> is \<open>None\<close> when
  the query runs over every row, and \<open>Some n\<close> when it fails after the callback has seen
  \<open>n\<close> rows. \<open>seaf_commit_manager_traverse_commit_tree\<close> gives the commits in the
  order of the traversal, or \<open>None\<close> when the traversal fails. \<open>sqlite_garbled\<close> is
  what sqlite makes of the table when it runs a text that is not the statement meant: one
  built from a field with a single quote in it, or cut short by \<open>snprintf\<close> (see
  \<open>save_task_to_db\<close> and \<open>remove_task_from_db\<close>).
\<close>

record extern =
  seaf_repo_manager_get_repo :: "string \<Rightarrow> SeafRepo option"
  seaf_repo_manager_get_repo_list :: "SeafRepo list"
  ccnet_get_peer :: "string \<Rightarrow> peer_net_state option"
  seaf_transfer_manager_add_download :: "string \<Rightarrow> string \<Rightarrow> string \<Rightarrow> string option"
  sqlite_query_exec :: "db_stmt \<Rightarrow> int"
  sqlite_garbled :: "db_stmt \<Rightarrow> db_row list \<Rightarrow> db_row list"
  sqlite_foreach_selected_row :: "nat option"
  g_dir_open :: "string \<Rightarrow> string list option"
  g_lstat :: "string \<Rightarrow> lstat_result"
  g_access :: "string \<Rightarrow> int"
  g_mkdir_with_parents :: "string \<Rightarrow> int"
  g_build_filename :: "string \<Rightarrow> string \<Rightarrow> string"
  g_path_get_basename :: "string \<Rightarrow> string"
  seaf_repo_verify_passwd :: "SeafRepo \<Rightarrow> string \<Rightarrow> int"
  seaf_repo_manager_set_repo_passwd :: "SeafRepo \<Rightarrow> string \<Rightarrow> int"
  seaf_repo_index_worktree_files :: "string \<Rightarrow> string \<Rightarrow> string option \<Rightarrow> string \<Rightarrow> int \<times> string"
  seaf_branch_manager_get_branch :: "string \<Rightarrow> string \<Rightarrow> SeafBranch option"
  seaf_commit_manager_get_commit :: "string \<Rightarrow> SeafCommit option"
  seaf_commit_manager_traverse_commit_tree :: "string \<Rightarrow> SeafCommit list option"
  read_index_from :: "string \<Rightarrow> int"
  unpack_trees :: "string \<Rightarrow> string \<Rightarrow> int"
  update_worktree :: "string \<Rightarrow> int"

text \<open>The calls that change something outside the clone manager, as they are logged.\<close>

datatype call =
    Schedule_index_files_job string
  | Schedule_merge_job string
  | Add_checkout_task string string
  | Add_download string string string
  | Cancel_transfer "string option"
  | Remove_transfer string
  | Send_add_relay string string string
  | Set_repo_worktree string string
  | Set_repo_token string string
  | Set_repo_email string string
  | Set_repo_relay_info string string string
  | Set_repo_passwd string string
  | Set_head string string string
  | Mkdir string
  | Index_worktree string string
  | Unpack_trees string string
  | Update_worktree string
  | Merge_recursive string string

text \<open>
  \<open>SeafCloneManager\<close>: the hash table \<open>tasks\<close> (keyed by repo id), the rows of the table
  behind \<open>db\<close>, and the log of outgoing calls. A function of clone-mgr.c that takes a
  \<open>CloneTask *\<close> takes and returns the pair of the task pointed to and the manager.
\<close>

record SeafCloneManager =
  tasks :: "(string \<times> CloneTask) list"
  db :: "db_row list"
  calls :: "call list"

type_synonym task_mgr = "CloneTask \<times> SeafCloneManager"

text \<open>
  How a call can end without a value: NULL with the message of the GError it set, NULL
  with no GError, a failed \<open>g_assert\<close>, a read before the start of a buffer, a pointer
  to a task that is no longer in the table.
\<close>

datatype failure =
  GError string | Null | Assert_failed | Out_of_bounds | Dangling

definition log_call :: "call \<Rightarrow> SeafCloneManager \<Rightarrow> SeafCloneManager" where
  "log_call c m = m\<lparr>calls := calls m @ [c]\<rparr>"

definition clone_task_new ::
  "string \<Rightarrow> string \<Rightarrow> string \<Rightarrow> string \<Rightarrow> string \<Rightarrow> string option \<Rightarrow>
   string \<Rightarrow> string \<Rightarrow> string \<Rightarrow> CloneTask" where
  "clone_task_new rid pid rname tok wt pw addr port mail =
     \<lparr>repo_id = rid, peer_id = pid, repo_name = rname, token = tok, worktree = wt,
      passwd = pw, peer_addr = addr, peer_port = port, email = mail,
      state = CLONE_STATE_INIT, error = CLONE_OK, tx_id = None, root_id = []\<rparr>"

subsection \<open>The table CloneTasks\<close>

text \<open>
  The table is created without a key, so REPLACE INTO adds a row. \<open>save_task_to_db\<close> and
  \<open>remove_task_from_db\<close> build the text of their statement by printing the fields with
  \<open>'%s'\<close>, without escaping; \<open>remove_task_from_db\<close> prints into \<open>char sql[256]\<close>
  with \<open>snprintf\<close>, which keeps 255 characters: the 38 of
  \<open>DELETE FROM CloneTasks WHERE repo_id='\<close>, the repo id and the closing quote fit when
  the repo id has at most 216 characters. When no printed field has a single quote and the
  text is not cut, the text is the statement meant: it adds the row of the task, or deletes
  the rows of the repo id. Otherwise the text is some other statement (or none), and what
  becomes of the table is \<open>sqlite_garbled\<close>. Whether sqlite runs the text at all is
  \<open>sqlite_query_exec\<close>.
\<close>

definition sql_safe :: "string \<Rightarrow> bool" where
  "sql_safe field = (CHR 0x27 \<notin> set field)"

definition id_safe :: "string \<Rightarrow> bool" where
  "id_safe rid = (sql_safe rid \<and> length rid \<le> 216)"

definition row_safe :: "db_row \<Rightarrow> bool" where
  "row_safe row =
     (sql_safe (c_repo_id row) \<and> sql_safe (c_repo_name row) \<and> sql_safe (c_token row) \<and>
      sql_safe (c_dest_id row) \<and> sql_safe (c_worktree_parent row) \<and>
      (case c_passwd row of None \<Rightarrow> True | Some pw \<Rightarrow> sql_safe pw) \<and>
      sql_safe (c_server_addr row) \<and> sql_safe (c_server_port row) \<and> sql_safe (c_email row))"

definition save_task_to_db :: "extern \<Rightarrow> CloneTask \<Rightarrow> SeafCloneManager \<Rightarrow> int \<times> SeafCloneManager" where
  "save_task_to_db x task m =
     (let row = \<lparr>c_repo_id = repo_id task, c_repo_name = repo_name task, c_token = token task,
                 c_dest_id = peer_id task, c_worktree_parent = worktree task,
                 c_passwd = passwd task, c_server_addr = peer_addr task,
                 c_server_port = peer_port task, c_email = email task\<rparr>
      in if sqlite_query_exec x (REPLACE_INTO row) < 0 then (-1, m)
         else if row_safe row then (0, m\<lparr>db := db m @ [row]\<rparr>)
         else (0, m\<lparr>db := sqlite_garbled x (REPLACE_INTO row) (db m)\<rparr>))"

definition remove_task_from_db :: "extern \<Rightarrow> string \<Rightarrow> SeafCloneManager \<Rightarrow> int \<times> SeafCloneManager" where
  "remove_task_from_db x rid m =
     (if sqlite_query_exec x (DELETE_FROM rid) < 0 then (-1, m)
      else if id_safe rid then (0, m\<lparr>db := filter (\<lambda>r. c_repo_id r \<noteq> rid) (db m)\<rparr>)
      else (0, m\<lparr>db := sqlite_garbled x (DELETE_FROM rid) (db m)\<rparr>))"

subsection \<open>Transitions\<close>

definition transition_state :: "extern \<Rightarrow> clone_state \<Rightarrow> task_mgr \<Rightarrow> task_mgr" where
  "transition_state x new_state tm =
     (case tm of (task, m) \<Rightarrow>
        let m' = (if new_state = CLONE_STATE_DONE \<or>
                     new_state = CLONE_STATE_ERROR \<or>
                     new_state = CLONE_STATE_CANCELED
                  then snd (remove_task_from_db x (repo_id task) m)
                  else m)
        in (task\<lparr>state := new_state\<rparr>, m'))"

definition transition_to_error :: "extern \<Rightarrow> clone_error \<Rightarrow> task_mgr \<Rightarrow> task_mgr" where
  "transition_to_error x err tm =
     (case tm of (task, m) \<Rightarrow>
        (task\<lparr>state := CLONE_STATE_ERROR, error := err\<rparr>,
         snd (remove_task_from_db x (repo_id task) m)))"

definition add_transfer_task :: "extern \<Rightarrow> task_mgr \<Rightarrow> int \<times> task_mgr" where
  "add_transfer_task x tm =
     (case tm of (task, m) \<Rightarrow>
        let tx = seaf_transfer_manager_add_download x (repo_id task) (peer_id task) (token task);
            tm' = (task\<lparr>tx_id := tx\<rparr>,
                   log_call (Add_download (repo_id task) (peer_id task) (token task)) m)
        in if tx = None then (-1, tm') else (0, tm'))"

subsection \<open>The index job\<close>

text \<open>
  \<open>index_files_job\<close> runs on a worker thread and fills \<open>task->root_id\<close>; its
  \<open>IndexAux\<close> comes from \<open>g_new0\<close>, so \<open>success\<close> starts FALSE. The job returns the
  value of \<open>aux->success\<close>.
\<close>

definition index_files_job :: "extern \<Rightarrow> task_mgr \<Rightarrow> bool \<times> task_mgr" where
  "index_files_job x tm =
     (case tm of (task, m) \<Rightarrow>
        case seaf_repo_index_worktree_files x (repo_id task) (worktree task) (passwd task)
               (root_id task) of
          (rc, root) \<Rightarrow>
            (rc = 0, (task\<lparr>root_id := root\<rparr>,
                      log_call (Index_worktree (repo_id task) (worktree task)) m)))"

definition index_files_done :: "extern \<Rightarrow> bool \<Rightarrow> task_mgr \<Rightarrow> task_mgr" where
  "index_files_done x success tm =
     (if \<not> success then transition_to_error x CLONE_ERROR_INDEX tm
      else if state (fst tm) = CLONE_STATE_CANCEL_PENDING
      then transition_state x CLONE_STATE_CANCELED tm
      else case add_transfer_task x tm of
             (rc, tm') \<Rightarrow>
               if rc < 0 then transition_to_error x CLONE_ERROR_FETCH tm'
               else transition_state x CLONE_STATE_FETCH tm')"

definition is_non_empty_directory :: "extern \<Rightarrow> string \<Rightarrow> bool" where
  "is_non_empty_directory x path =
     (case g_dir_open x path of None \<Rightarrow> False | Some names \<Rightarrow> names \<noteq> [])"

definition start_index_or_transfer :: "extern \<Rightarrow> task_mgr \<Rightarrow> int \<times> task_mgr" where
  "start_index_or_transfer x tm =
     (if is_non_empty_directory x (worktree (fst tm))
      then (case transition_state x CLONE_STATE_INDEX tm of
              (task, m) \<Rightarrow> (0, (task, log_call (Schedule_index_files_job (repo_id task)) m)))
      else case add_transfer_task x tm of
             (ret, tm') \<Rightarrow>
               if ret = 0 then (ret, transition_state x CLONE_STATE_FETCH tm')
               else (ret, transition_to_error x CLONE_ERROR_FETCH tm'))"

subsection \<open>The relay\<close>

definition is_task_relay_connected :: "extern \<Rightarrow> CloneTask \<Rightarrow> bool" where
  "is_task_relay_connected x task =
     (case ccnet_get_peer x (peer_id task) of
        None \<Rightarrow> False
      | Some net_state \<Rightarrow> net_state = PEER_CONNECTED)"

definition start_connect_task_relay :: "extern \<Rightarrow> task_mgr \<Rightarrow> task_mgr" where
  "start_connect_task_relay x tm =
     (case tm of (task, m) \<Rightarrow>
        if ccnet_get_peer x (peer_id task) = None
        then transition_state x CLONE_STATE_CONNECT
               (task, log_call (Send_add_relay (peer_id task) (peer_addr task) (peer_port task)) m)
        else transition_state x CLONE_STATE_CONNECT (task, m))"

definition continue_task_when_peer_connected :: "extern \<Rightarrow> task_mgr \<Rightarrow> task_mgr" where
  "continue_task_when_peer_connected x tm =
     (case ccnet_get_peer x (peer_id (fst tm)) of
        Some PEER_CONNECTED \<Rightarrow> snd (start_index_or_transfer x tm)
      | _ \<Rightarrow> tm)"

subsection \<open>The hash table of tasks\<close>

text \<open>
  \<open>g_hash_table_lookup\<close> is \<open>map_of\<close>, \<open>g_hash_table_insert\<close> replaces the entry of
  the key. \<open>store_task\<close> writes back the task that a callback changed through its
  pointer.
\<close>

definition store_task :: "string \<Rightarrow> task_mgr \<Rightarrow> SeafCloneManager" where
  "store_task key tm = (case tm of (task, m) \<Rightarrow> m\<lparr>tasks := AList.update key task (tasks m)\<rparr>)"

definition terminal :: "clone_state \<Rightarrow> bool" where
  "terminal s = (s = CLONE_STATE_DONE \<or> s = CLONE_STATE_ERROR \<or> s = CLONE_STATE_CANCELED)"

definition is_duplicate_task :: "SeafCloneManager \<Rightarrow> string \<Rightarrow> bool" where
  "is_duplicate_task m rid =
     (case map_of (tasks m) rid of
        None \<Rightarrow> False
      | Some task \<Rightarrow> state task \<noteq> CLONE_STATE_DONE \<and>
                     state task \<noteq> CLONE_STATE_ERROR \<and>
                     state task \<noteq> CLONE_STATE_CANCELED)"

definition is_worktree_of_repo :: "extern \<Rightarrow> SeafCloneManager \<Rightarrow> string \<Rightarrow> bool" where
  "is_worktree_of_repo x m path =
     (if list_ex (\<lambda>repo. r_worktree repo = Some path) (seaf_repo_manager_get_repo_list x)
      then True
      else list_ex (\<lambda>(key, task).
                      \<not> (state task = CLONE_STATE_DONE \<or>
                         state task = CLONE_STATE_ERROR \<or>
                         state task = CLONE_STATE_CANCELED) \<and>
                      worktree task = path) (tasks m))"

text \<open>
  \<open>check_connect_pulse\<close> walks the table; each task in CONNECT is read through its
  pointer when its turn comes.
\<close>

definition check_connect_pulse :: "extern \<Rightarrow> SeafCloneManager \<Rightarrow> SeafCloneManager" where
  "check_connect_pulse x m =
     fold (\<lambda>key m1.
             case map_of (tasks m1) key of
               None \<Rightarrow> m1
             | Some task \<Rightarrow>
                 if state task = CLONE_STATE_CONNECT
                 then store_task key (continue_task_when_peer_connected x (task, m1))
                 else m1)
          (map fst (tasks m)) m"

subsection \<open>Choosing the worktree\<close>

text \<open>The decimal digits that \<open>%d\<close> prints.\<close>

function show_nat :: "nat \<Rightarrow> string" where
  "show_nat n = (if n < 10 then [''0123456789'' ! n]
                 else show_nat (n div 10) @ [''0123456789'' ! (n mod 10)])"
  by pat_completeness auto
termination
  by (relation "measure (\<lambda>n. n)") auto

declare show_nat.simps [simp del]

definition show_int :: "int \<Rightarrow> string" where
  "show_int i = (if i < 0 then CHR ''-'' # show_nat (nat (- i)) else show_nat (nat i))"

text \<open>
  The loop of \<open>try_worktree\<close>. \<open>cnt\<close> is an unsigned int that \<open>%d\<close> prints as an int;
  the loop gives up when the incremented counter is \<open>-1U\<close>.
\<close>

function try_worktree_loop :: "extern \<Rightarrow> string \<Rightarrow> 32 word \<Rightarrow> string option" where
  "try_worktree_loop x wt cnt =
     (let tmp = wt @ ''-'' @ show_int (sint cnt);
          cnt' = cnt + 1
      in if g_access x tmp < 0 then Some tmp
         else if cnt' = - 1 then None
         else try_worktree_loop x wt cnt')"
  by pat_completeness auto
termination
proof (relation "measure (\<lambda>(x, wt, cnt). unat (- 2 - cnt))")
  show "wf (measure (\<lambda>(x, wt, cnt). unat (- 2 - cnt)))" by simp
next
  fix x :: extern and wt :: string and cnt cnt' :: "32 word" and tmp :: string
  assume c: "cnt' = cnt + 1" and ne: "cnt' \<noteq> - 1"
  have pred: "unat (w - 1) < unat w" if "w \<noteq> 0" for w :: "32 word"
    using that by (simp add: unat_minus_one unat_gt_0)
  have "- 2 - cnt \<noteq> 0"
  proof
    assume "- 2 - cnt = 0"
    then have "cnt = - 2" by simp
    then show False using c ne by simp
  qed
  then have lt: "unat ((- 2 - cnt) - 1) < unat (- 2 - cnt)"
    by (rule pred)
  have eq: "- 2 - cnt' = (- 2 - cnt) - 1" using c by simp
  have "unat (- 2 - cnt') < unat (- 2 - cnt)"
    unfolding eq by (rule lt)
  then show "((x, wt, cnt'), (x, wt, cnt)) \<in> measure (\<lambda>(x, wt, cnt). unat (- 2 - cnt))"
    by simp
qed

declare try_worktree_loop.simps [simp del]

definition try_worktree :: "extern \<Rightarrow> string \<Rightarrow> string option" where
  "try_worktree x wt = try_worktree_loop x wt 1"

text \<open>
  The loop at the head of \<open>make_worktree\<close> cuts trailing separators, reading \<open>wt[tail]\<close>
  with \<open>tail\<close> running down from \<open>strlen (worktree) - 1\<close> with no lower bound: on the
  empty string, and on a string of separators only, it reads \<open>wt[-1]\<close>.
\<close>

function strip_trailing :: "string \<Rightarrow> string option" where
  "strip_trailing wt =
     (if wt = [] then None
      else if last wt = CHR ''/'' \<or> last wt = CHR 0x5C then strip_trailing (butlast wt)
      else Some wt)"
  by pat_completeness auto
termination
  by (relation "measure length") auto

declare strip_trailing.simps [simp del]

text \<open>
  The label \<open>mk_dir\<close> of \<open>make_worktree\<close>. \<open>ret\<close> is NULL only when \<open>try_worktree\<close>
  gave up, which happens in a dry run only.
\<close>

definition mk_dir ::
  "extern \<Rightarrow> bool \<Rightarrow> string option \<Rightarrow> SeafCloneManager \<Rightarrow> (failure + string) \<times> SeafCloneManager" where
  "mk_dir x dry_run ret m =
     (case ret of
        None \<Rightarrow> (Inl Null, m)
      | Some path \<Rightarrow>
          if \<not> dry_run
          then (if g_mkdir_with_parents x path < 0 then (Inl Null, log_call (Mkdir path) m)
                else (Inr path, log_call (Mkdir path) m))
          else (Inr path, m))"

definition make_worktree ::
  "extern \<Rightarrow> SeafCloneManager \<Rightarrow> string \<Rightarrow> bool \<Rightarrow> (failure + string) \<times> SeafCloneManager" where
  "make_worktree x m worktree_in dry_run =
     (case strip_trailing worktree_in of
        None \<Rightarrow> (Inl Out_of_bounds, m)
      | Some wt \<Rightarrow>
          if g_lstat x wt = ENOENT then mk_dir x dry_run (Some wt) m
          else if g_lstat x wt \<noteq> ST_MODE True
          then (if \<not> dry_run then (Inl (GError ''Invalid local directory''), m)
                else mk_dir x dry_run (try_worktree x wt) m)
          else if is_worktree_of_repo x m wt
          then (if \<not> dry_run then (Inl (GError ''Already in sync''), m)
                else mk_dir x dry_run (try_worktree x wt) m)
          else (Inr wt, m))"

definition seaf_clone_manager_gen_default_worktree ::
  "extern \<Rightarrow> SeafCloneManager \<Rightarrow> string \<Rightarrow> string \<Rightarrow> (failure + string) \<times> SeafCloneManager" where
  "seaf_clone_manager_gen_default_worktree x m worktree_parent rname =
     (let wt = g_build_filename x worktree_parent rname
      in case make_worktree x m wt True of
           (Inr wtree, m') \<Rightarrow> (Inr wtree, m')
         | (Inl Out_of_bounds, m') \<Rightarrow> (Inl Out_of_bounds, m')
         | (Inl _, m') \<Rightarrow> (Inr wt, m'))"

text \<open>\<open>seaf_clone_manager_gen_default_worktree\<close> called \<open>k\<close> times in a row.\<close>

fun gen_default_worktree_times ::
  "nat \<Rightarrow> extern \<Rightarrow> SeafCloneManager \<Rightarrow> string \<Rightarrow> string \<Rightarrow>
   (failure + string) list \<times> SeafCloneManager" where
  "gen_default_worktree_times 0 x m worktree_parent rname = ([], m)"
| "gen_default_worktree_times (Suc k) x m worktree_parent rname =
     (case seaf_clone_manager_gen_default_worktree x m worktree_parent rname of
        (r, m') \<Rightarrow>
          (case gen_default_worktree_times k x m' worktree_parent rname of
             (rs, m'') \<Rightarrow> (r # rs, m'')))"

definition worktree_repo_name_matches :: "extern \<Rightarrow> string \<Rightarrow> string \<Rightarrow> bool" where
  "worktree_repo_name_matches x worktree_in rname =
     (let base = g_path_get_basename x worktree_in;
          base_len = length base;
          name_len = length rname
      in if base_len < name_len then False
         else take name_len base = take name_len rname)"

subsection \<open>Checkout and merge\<close>

text \<open>The last part of \<open>start_checkout\<close>, after the password has been dealt with.\<close>

definition schedule_checkout_or_merge :: "extern \<Rightarrow> SeafRepo \<Rightarrow> task_mgr \<Rightarrow> task_mgr" where
  "schedule_checkout_or_merge x repo tm =
     (if \<not> is_non_empty_directory x (worktree (fst tm))
      then (case transition_state x CLONE_STATE_CHECKOUT tm of
              (task, m) \<Rightarrow> (task, log_call (Add_checkout_task (r_id repo) (worktree task)) m))
      else (case transition_state x CLONE_STATE_MERGE tm of
              (task, m) \<Rightarrow> (task, log_call (Schedule_merge_job (repo_id task)) m)))"

definition start_checkout :: "extern \<Rightarrow> SeafRepo \<Rightarrow> task_mgr \<Rightarrow> task_mgr" where
  "start_checkout x repo tm =
     (case tm of (task, m) \<Rightarrow>
        if r_encrypted repo \<and> passwd task \<noteq> None
        then (if r_enc_version repo \<ge> 1 \<and> seaf_repo_verify_passwd x repo (the (passwd task)) < 0
              then transition_to_error x CLONE_ERROR_PASSWD tm
              else if seaf_repo_manager_set_repo_passwd x repo (the (passwd task)) < 0
              then transition_to_error x CLONE_ERROR_INTERNAL
                     (task, log_call (Set_repo_passwd (r_id repo) (the (passwd task))) m)
              else schedule_checkout_or_merge x repo
                     (task, log_call (Set_repo_passwd (r_id repo) (the (passwd task))) m))
        else if r_encrypted repo
        then transition_to_error x CLONE_ERROR_PASSWD tm
        else schedule_checkout_or_merge x repo tm)"

subsection \<open>Adding, cancelling and removing a task\<close>

definition seaf_clone_manager_add_task ::
  "extern \<Rightarrow> SeafCloneManager \<Rightarrow> string \<Rightarrow> string \<Rightarrow> string \<Rightarrow> string \<Rightarrow> string option \<Rightarrow>
   string \<Rightarrow> string \<Rightarrow> string \<Rightarrow> string \<Rightarrow> (failure + string) \<times> SeafCloneManager" where
  "seaf_clone_manager_add_task x m rid pid rname tok pw worktree_in addr port mail =
     (if length rid \<noteq> 36 then (Inl Assert_failed, m)
      else
        let repo = seaf_repo_manager_get_repo x rid
        in if repo \<noteq> None \<and> r_head (the repo) \<noteq> None
           then (Inl (GError ''Repo already exists''), m)
           else if is_duplicate_task m rid
           then (Inl (GError ''Task is already in progress''), m)
           else if \<not> worktree_repo_name_matches x worktree_in rname
           then (Inl (GError ''Invalid local directory name''), m)
           else
             case make_worktree x m worktree_in False of
               (Inl e, m1) \<Rightarrow> (Inl e, m1)
             | (Inr wtree, m1) \<Rightarrow>
                 let task = clone_task_new rid pid rname tok wtree pw addr port mail
                 in case save_task_to_db x task m1 of
                      (rc, m2) \<Rightarrow>
                        if rc < 0 then (Inl Null, m2)
                        else
                          let tm = (if repo \<noteq> None \<and> r_head (the repo) = None
                                    then start_checkout x (the repo) (task, m2)
                                    else if \<not> is_task_relay_connected x task
                                    then start_connect_task_relay x (task, m2)
                                    else snd (start_index_or_transfer x (task, m2)))
                          in (Inr rid, store_task (repo_id (fst tm)) tm))"

definition seaf_clone_manager_cancel_task ::
  "extern \<Rightarrow> SeafCloneManager \<Rightarrow> string \<Rightarrow> int \<times> SeafCloneManager" where
  "seaf_clone_manager_cancel_task x m rid =
     (case map_of (tasks m) rid of
        None \<Rightarrow> (- 1, m)
      | Some task \<Rightarrow>
          (case state task of
             CLONE_STATE_INIT \<Rightarrow>
               (0, store_task rid (transition_state x CLONE_STATE_CANCELED (task, m)))
           | CLONE_STATE_CONNECT \<Rightarrow>
               (0, store_task rid (transition_state x CLONE_STATE_CANCELED (task, m)))
           | CLONE_STATE_FETCH \<Rightarrow>
               (0, store_task rid (transition_state x CLONE_STATE_CANCEL_PENDING
                                     (task, log_call (Cancel_transfer (tx_id task)) m)))
           | CLONE_STATE_INDEX \<Rightarrow>
               (0, store_task rid (transition_state x CLONE_STATE_CANCEL_PENDING (task, m)))
           | CLONE_STATE_CHECKOUT \<Rightarrow>
               (0, store_task rid (transition_state x CLONE_STATE_CANCEL_PENDING (task, m)))
           | CLONE_STATE_MERGE \<Rightarrow>
               (0, store_task rid (transition_state x CLONE_STATE_CANCEL_PENDING (task, m)))
           | CLONE_STATE_CANCEL_PENDING \<Rightarrow> (0, m)
           | _ \<Rightarrow> (- 1, m)))"

definition seaf_clone_manager_remove_task ::
  "extern \<Rightarrow> SeafCloneManager \<Rightarrow> string \<Rightarrow> int \<times> SeafCloneManager" where
  "seaf_clone_manager_remove_task x m rid =
     (case map_of (tasks m) rid of
        None \<Rightarrow> (- 1, m)
      | Some task \<Rightarrow>
          if state task \<noteq> CLONE_STATE_DONE \<and>
             state task \<noteq> CLONE_STATE_ERROR \<and>
             state task \<noteq> CLONE_STATE_CANCELED
          then (- 1, m)
          else
            let m1 = (case tx_id task of None \<Rightarrow> m | Some tx \<Rightarrow> log_call (Remove_transfer tx) m)
            in (0, m1\<lparr>tasks := AList.delete rid (tasks m1)\<rparr>))"

subsection \<open>The merge job\<close>

record CompareAux =
  fast_forward :: bool
  aux_root_id :: string

text \<open>\<open>compare_root\<close> returns the new \<open>aux\<close> and the value it leaves in \<open>*stop\<close>.\<close>

definition compare_root :: "SeafCommit \<Rightarrow> CompareAux \<Rightarrow> CompareAux \<times> bool" where
  "compare_root commit aux =
     (if fast_forward aux then (aux, True)
      else if k_root_id commit = aux_root_id aux then (aux\<lparr>fast_forward := True\<rparr>, True)
      else (aux, False))"

text \<open>
  The commit manager calls \<open>compare_root\<close> on the commits it visits, in its order, until
  the callback sets \<open>*stop\<close>.
\<close>

fun traverse_commits :: "SeafCommit list \<Rightarrow> CompareAux \<Rightarrow> CompareAux" where
  "traverse_commits [] aux = aux"
| "traverse_commits (commit # rest) aux =
     (case compare_root commit aux of
        (aux', stop) \<Rightarrow> if stop then aux' else traverse_commits rest aux')"

definition check_fast_forward :: "extern \<Rightarrow> SeafCommit \<Rightarrow> string \<Rightarrow> bool" where
  "check_fast_forward x head root =
     (case seaf_commit_manager_traverse_commit_tree x (k_commit_id head) of
        None \<Rightarrow> False
      | Some commits \<Rightarrow>
          fast_forward (traverse_commits commits \<lparr>fast_forward = False, aux_root_id = root\<rparr>))"

definition real_merge :: "extern \<Rightarrow> SeafRepo \<Rightarrow> SeafCommit \<Rightarrow> task_mgr \<Rightarrow> int \<times> task_mgr" where
  "real_merge x repo head tm =
     (case tm of (task, m) \<Rightarrow>
        if read_index_from x (r_id repo) < 0 then (- 1, tm)
        else (0, (task, log_call (Merge_recursive (root_id task) (k_root_id head)) m)))"

definition fast_forward_checkout ::
  "extern \<Rightarrow> SeafRepo \<Rightarrow> SeafCommit \<Rightarrow> task_mgr \<Rightarrow> int \<times> task_mgr" where
  "fast_forward_checkout x repo head tm =
     (case tm of (task, m) \<Rightarrow>
        if k_root_id head = root_id task then (0, tm)
        else if read_index_from x (r_id repo) < 0 then (- 1, tm)
        else
          let m1 = log_call (Unpack_trees (root_id task) (k_root_id head)) m
          in if unpack_trees x (root_id task) (k_root_id head) < 0 then (- 1, (task, m1))
             else
               let m2 = log_call (Update_worktree (k_commit_id head)) m1
               in if update_worktree x (k_commit_id head) < 0 then (- 1, (task, m2))
                  else (0, (task, m2)))"

text \<open>
  \<open>merge_job\<close> after its first statement. \<open>success\<close> is the value of \<open>aux->success\<close> on
  entry; the job returns the value on exit.
\<close>

definition merge_job_merge :: "extern \<Rightarrow> SeafRepo \<Rightarrow> bool \<Rightarrow> task_mgr \<Rightarrow> bool \<times> task_mgr" where
  "merge_job_merge x repo success tm =
     (case seaf_branch_manager_get_branch x (r_id repo) ''local'' of
        None \<Rightarrow> (False, tm)
      | Some local \<Rightarrow>
          (case seaf_commit_manager_get_commit x (b_commit_id local) of
             None \<Rightarrow> (False, tm)
           | Some head \<Rightarrow>
               (case (if check_fast_forward x head (root_id (fst tm))
                      then fast_forward_checkout x repo head tm
                      else real_merge x repo head tm) of
                  (rc, (task, m)) \<Rightarrow>
                    if rc < 0 then (success, (task, m))
                    else (True, (task, log_call (Set_head (r_id repo) (b_commit_id local)
                                                    (k_commit_id head)) m)))))"

definition merge_job :: "extern \<Rightarrow> SeafRepo \<Rightarrow> bool \<Rightarrow> task_mgr \<Rightarrow> bool \<times> task_mgr" where
  "merge_job x repo success tm =
     (case tm of (task, m) \<Rightarrow>
        if root_id task = []
        then (case seaf_repo_index_worktree_files x (repo_id task) (worktree task) (passwd task)
                     (root_id task) of
                (rc, root) \<Rightarrow>
                  if rc < 0
                  then (success, (task\<lparr>root_id := root\<rparr>,
                                  log_call (Index_worktree (repo_id task) (worktree task)) m))
                  else merge_job_merge x repo success
                         (task\<lparr>root_id := root\<rparr>,
                          log_call (Index_worktree (repo_id task) (worktree task)) m))
        else merge_job_merge x repo success tm)"

definition merge_job_done :: "extern \<Rightarrow> SeafRepo \<Rightarrow> bool \<Rightarrow> task_mgr \<Rightarrow> failure + task_mgr" where
  "merge_job_done x repo success tm =
     (case tm of (task, m) \<Rightarrow>
        if \<not> success then Inr (transition_to_error x CLONE_ERROR_MERGE tm)
        else
          let m1 = log_call (Set_repo_worktree (r_id repo) (worktree task)) m
          in if state task = CLONE_STATE_CANCEL_PENDING
             then Inr (transition_state x CLONE_STATE_CANCELED (task, m1))
             else if state task = CLONE_STATE_MERGE
             then Inr (transition_state x CLONE_STATE_DONE (task, m1))
             else Inl Assert_failed)"

subsection \<open>The callbacks of the transfer and repo managers\<close>

definition on_repo_fetched :: "extern \<Rightarrow> TransferTask \<Rightarrow> SeafCloneManager \<Rightarrow> failure + SeafCloneManager" where
  "on_repo_fetched x tx_task m =
     (if \<not> t_is_clone tx_task then Inr m
      else
        case map_of (tasks m) (t_repo_id tx_task) of
          None \<Rightarrow> Inl Assert_failed
        | Some task \<Rightarrow>
            if t_state tx_task = TASK_STATE_CANCELED
            then Inr (store_task (t_repo_id tx_task)
                        (transition_state x CLONE_STATE_CANCELED (task, m)))
            else if t_state tx_task = TASK_STATE_ERROR
            then Inr (store_task (t_repo_id tx_task)
                        (transition_to_error x CLONE_ERROR_FETCH (task, m)))
            else
              (case seaf_repo_manager_get_repo x (t_repo_id tx_task) of
                 None \<Rightarrow> Inr (store_task (t_repo_id tx_task)
                                (transition_to_error x CLONE_ERROR_INTERNAL (task, m)))
               | Some repo \<Rightarrow>
                   Inr (store_task (t_repo_id tx_task)
                          (start_checkout x repo
                             (task,
                              log_call (Set_repo_relay_info (r_id repo) (peer_addr task) (peer_port task))
                                (log_call (Set_repo_email (r_id repo) (email task))
                                   (log_call (Set_repo_token (r_id repo) (token task)) m)))))))"

definition on_checkout_done :: "extern \<Rightarrow> bool \<Rightarrow> string \<Rightarrow> SeafCloneManager \<Rightarrow> failure + SeafCloneManager" where
  "on_checkout_done x ctask_success repo_ident m =
     (case map_of (tasks m) repo_ident of
        None \<Rightarrow> Inl Assert_failed
      | Some task \<Rightarrow>
          if \<not> ctask_success
          then Inr (store_task repo_ident (transition_to_error x CLONE_ERROR_CHECKOUT (task, m)))
          else if state task = CLONE_STATE_CANCEL_PENDING
          then Inr (store_task repo_ident (transition_state x CLONE_STATE_CANCELED (task, m)))
          else if state task = CLONE_STATE_CHECKOUT
          then Inr (store_task repo_ident (transition_state x CLONE_STATE_DONE (task, m)))
          else Inl Assert_failed)"

subsection \<open>Start-up\<close>

definition restart_task :: "extern \<Rightarrow> db_row \<Rightarrow> SeafCloneManager \<Rightarrow> SeafCloneManager" where
  "restart_task x row m =
     (let task = clone_task_new (c_repo_id row) (c_dest_id row) (c_repo_name row) (c_token row)
                   (c_worktree_parent row) (c_passwd row) (c_server_addr row)
                   (c_server_port row) (c_email row)
      in case seaf_repo_manager_get_repo x (c_repo_id row) of
           Some repo \<Rightarrow>
             if r_head repo \<noteq> None
             then store_task (repo_id task) (transition_state x CLONE_STATE_DONE (task, m))
             else store_task (repo_id task) (start_checkout x repo (task, m))
         | None \<Rightarrow>
             if \<not> is_task_relay_connected x task
             then store_task (repo_id task) (start_connect_task_relay x (task, m))
             else store_task (repo_id task) (snd (start_index_or_transfer x (task, m))))"

text \<open>
  \<open>seaf_clone_manager_new\<close> leaves the hash table empty; \<open>rows\<close> is the content of
  clone.db (when clone.db cannot be opened there is no manager; that case is left out).
  \<open>seaf_clone_manager_init\<close> creates the table if need be and calls \<open>restart_task\<close>
  on the rows that the SELECT hands over, before the first callback runs.
\<close>

definition seaf_clone_manager_new :: "db_row list \<Rightarrow> SeafCloneManager" where
  "seaf_clone_manager_new rows = \<lparr>tasks = [], db = rows, calls = []\<rparr>"

definition seaf_clone_manager_init :: "extern \<Rightarrow> SeafCloneManager \<Rightarrow> int \<times> SeafCloneManager" where
  "seaf_clone_manager_init x m =
     (if sqlite_query_exec x CREATE_TABLE < 0 then (- 1, m)
      else case sqlite_foreach_selected_row x of
             Some n \<Rightarrow> (- 1, fold (restart_task x) (take n (db m)) m)
           | None \<Rightarrow> (0, fold (restart_task x) (db m) m))"

subsection \<open>Events\<close>

text \<open>
  What the event loop runs after start-up: the three calls of the RPC layer, the timer, and
  the four completions. A job's completion carries what its \<open>aux\<close> points to: the task (by
  its key) and, for the merge job, the repo.
\<close>

datatype event =
    Add_task string string string string "string option" string string string string
  | Cancel_task string
  | Remove_task string
  | Connect_pulse
  | Index_files_finished string
  | Merge_job_finished string SeafRepo
  | Repo_fetched TransferTask
  | Checkout_done bool string

definition step :: "extern \<Rightarrow> event \<Rightarrow> SeafCloneManager \<Rightarrow> failure + SeafCloneManager" where
  "step x ev m =
     (case ev of
        Add_task rid pid rname tok pw worktree_in addr port mail \<Rightarrow>
          (case seaf_clone_manager_add_task x m rid pid rname tok pw worktree_in addr port mail of
             (Inl Assert_failed, m') \<Rightarrow> Inl Assert_failed
           | (Inl Out_of_bounds, m') \<Rightarrow> Inl Out_of_bounds
           | (r, m') \<Rightarrow> Inr m')
      | Cancel_task rid \<Rightarrow> Inr (snd (seaf_clone_manager_cancel_task x m rid))
      | Remove_task rid \<Rightarrow> Inr (snd (seaf_clone_manager_remove_task x m rid))
      | Connect_pulse \<Rightarrow> Inr (check_connect_pulse x m)
      | Index_files_finished rid \<Rightarrow>
          (case map_of (tasks m) rid of
             None \<Rightarrow> Inl Dangling
           | Some task \<Rightarrow>
               (case index_files_job x (task, m) of
                  (success, tm) \<Rightarrow> Inr (store_task rid (index_files_done x success tm))))
      | Merge_job_finished rid repo \<Rightarrow>
          (case map_of (tasks m) rid of
             None \<Rightarrow> Inl Dangling
           | Some task \<Rightarrow>
               (case merge_job x repo False (task, m) of
                  (success, tm) \<Rightarrow>
                    (case merge_job_done x repo success tm of
                       Inl f \<Rightarrow> Inl f
                     | Inr tm' \<Rightarrow> Inr (store_task rid tm'))))
      | Repo_fetched tx_task \<Rightarrow> on_repo_fetched x tx_task m
      | Checkout_done ctask_success repo_ident \<Rightarrow> on_checkout_done x ctask_success repo_ident m)"

text \<open>A run of the event loop: each event comes with what the outside answers during it.\<close>

fun run :: "(extern \<times> event) list \<Rightarrow> SeafCloneManager \<Rightarrow> failure + SeafCloneManager" where
  "run [] m = Inr m"
| "run ((x, ev) # rest) m = (case step x ev m of Inl f \<Rightarrow> Inl f | Inr m' \<Rightarrow> run rest m')"

subsection \<open>Runs of the event loop and what holds along them\<close>

text \<open>
  A completion is expected when the job or the transfer it completes can be in flight: the
  index job while the task is in INDEX, the merge job in MERGE, the checkout in CHECKOUT, the
  transfer in FETCH, and each of them in CANCEL_PENDING, where the task waits for it. The
  other events can come at any time.
\<close>

definition task_in :: "SeafCloneManager \<Rightarrow> string \<Rightarrow> clone_state list \<Rightarrow> bool" where
  "task_in m rid states =
     (case map_of (tasks m) rid of None \<Rightarrow> False | Some task \<Rightarrow> state task \<in> set states)"

definition expected :: "event \<Rightarrow> SeafCloneManager \<Rightarrow> bool" where
  "expected ev m =
     (case ev of
        Index_files_finished rid \<Rightarrow>
          task_in m rid [CLONE_STATE_INDEX, CLONE_STATE_CANCEL_PENDING]
      | Merge_job_finished rid repo \<Rightarrow>
          task_in m rid [CLONE_STATE_MERGE, CLONE_STATE_CANCEL_PENDING]
      | Checkout_done ctask_success rid \<Rightarrow>
          task_in m rid [CLONE_STATE_CHECKOUT, CLONE_STATE_CANCEL_PENDING]
      | Repo_fetched tx_task \<Rightarrow>
          \<not> t_is_clone tx_task \<or>
          task_in m (t_repo_id tx_task) [CLONE_STATE_FETCH, CLONE_STATE_CANCEL_PENDING]
      | _ \<Rightarrow> True)"

fun all_expected :: "(extern \<times> event) list \<Rightarrow> SeafCloneManager \<Rightarrow> bool" where
  "all_expected [] m = True"
| "all_expected ((x, ev) # rest) m =
     (expected ev m \<and> (case step x ev m of Inl f \<Rightarrow> True | Inr m' \<Rightarrow> all_expected rest m'))"






text \<open>
  \<open>admits x ev m rid\<close>: the event is a call of \<open>seaf_clone_manager_add_task\<close> for \<open>rid\<close>
  that succeeds, and so puts a new task under \<open>rid\<close>. \<open>has_entered_fetch rid seen evs m\<close>
  follows a run and tells whether the task under \<open>rid\<close> has been in FETCH after some event
  since it was put in the table; \<open>seen\<close> is the answer at the start.
\<close>

definition admits :: "extern \<Rightarrow> event \<Rightarrow> SeafCloneManager \<Rightarrow> string \<Rightarrow> bool" where
  "admits x ev m rid =
     (case ev of
        Add_task r pid rname tok pw worktree_in addr port mail \<Rightarrow>
          r = rid \<and>
          fst (seaf_clone_manager_add_task x m r pid rname tok pw worktree_in addr port mail)
            = Inr r
      | _ \<Rightarrow> False)"

text \<open>
  \<open>resumes ev rid\<close>: the event is the completion of the clone transfer of \<open>rid\<close> in
  a state other than CANCELED and ERROR; \<open>on_repo_fetched\<close> then goes on with the task
  whatever its state. \<open>job_failed x ev m rid\<close>: the event is the completion of a job or of
  a transfer of the task under \<open>rid\<close> that failed. \<open>undisturbed rid evs m\<close>: along the
  run no event admits a new task under \<open>rid\<close> and none resumes the task;
  \<open>job_fails_in rid evs m\<close>: some completion along the run is that of a failed job.
\<close>

definition resumes :: "event \<Rightarrow> string \<Rightarrow> bool" where
  "resumes ev rid =
     (case ev of
        Repo_fetched tx_task \<Rightarrow>
          t_is_clone tx_task \<and> t_repo_id tx_task = rid \<and>
          t_state tx_task \<noteq> TASK_STATE_CANCELED \<and> t_state tx_task \<noteq> TASK_STATE_ERROR
      | _ \<Rightarrow> False)"

definition job_failed :: "extern \<Rightarrow> event \<Rightarrow> SeafCloneManager \<Rightarrow> string \<Rightarrow> bool" where
  "job_failed x ev m rid =
     (case ev of
        Index_files_finished r \<Rightarrow>
          r = rid \<and>
          (case map_of (tasks m) rid of
             None \<Rightarrow> False
           | Some task \<Rightarrow> \<not> fst (index_files_job x (task, m)))
      | Merge_job_finished r repo \<Rightarrow>
          r = rid \<and>
          (case map_of (tasks m) rid of
             None \<Rightarrow> False
           | Some task \<Rightarrow> \<not> fst (merge_job x repo False (task, m)))
      | Checkout_done ctask_success r \<Rightarrow> r = rid \<and> \<not> ctask_success
      | Repo_fetched tx_task \<Rightarrow>
          t_is_clone tx_task \<and> t_repo_id tx_task = rid \<and> t_state tx_task = TASK_STATE_ERROR
      | _ \<Rightarrow> False)"

fun undisturbed :: "string \<Rightarrow> (extern \<times> event) list \<Rightarrow> SeafCloneManager \<Rightarrow> bool" where
  "undisturbed rid [] m = True"
| "undisturbed rid ((x, ev) # rest) m =
     (\<not> admits x ev m rid \<and> \<not> resumes ev rid \<and>
      (case step x ev m of Inl f \<Rightarrow> True | Inr m' \<Rightarrow> undisturbed rid rest m'))"

fun job_fails_in :: "string \<Rightarrow> (extern \<times> event) list \<Rightarrow> SeafCloneManager \<Rightarrow> bool" where
  "job_fails_in rid [] m = False"
| "job_fails_in rid ((x, ev) # rest) m =
     (job_failed x ev m rid \<or>
      (case step x ev m of Inl f \<Rightarrow> False | Inr m' \<Rightarrow> job_fails_in rid rest m'))"

text \<open>
  \<open>tx_id_agrees task seen\<close>: \<open>tx_id\<close> is set exactly when \<open>seen\<close> holds; a task in
  FETCH has its \<open>tx_id\<close>, and a task in INIT, CONNECT or INDEX has none yet.
\<close>

definition tx_id_agrees :: "CloneTask \<Rightarrow> bool \<Rightarrow> bool" where
  "tx_id_agrees task seen =
     ((tx_id task \<noteq> None \<longleftrightarrow> seen) \<and>
      (state task = CLONE_STATE_FETCH \<longrightarrow> tx_id task \<noteq> None) \<and>
      (state task \<in> {CLONE_STATE_INIT, CLONE_STATE_CONNECT, CLONE_STATE_INDEX} \<longrightarrow>
         tx_id task = None))"

fun has_entered_fetch ::
  "string \<Rightarrow> bool \<Rightarrow> (extern \<times> event) list \<Rightarrow> SeafCloneManager \<Rightarrow> bool" where
  "has_entered_fetch rid seen [] m = seen"
| "has_entered_fetch rid seen ((x, ev) # rest) m =
     (case step x ev m of
        Inl f \<Rightarrow> seen
      | Inr m' \<Rightarrow>
          has_entered_fetch rid
            ((seen \<and> \<not> admits x ev m rid) \<or> task_in m' rid [CLONE_STATE_FETCH]) rest m')"

subsection \<open>Example values\<close>

text \<open>
  An outside world in which every call succeeds: no repo is known yet, the relay is
  connected, no path exists. \<open>posix_basename\<close> is what GLib documents for
  \<open>g_path_get_basename\<close> on a POSIX system.
\<close>

definition posix_basename :: "string \<Rightarrow> string" where
  "posix_basename file_name =
     (if file_name = [] then ''.''
      else let cut = rev (dropWhile (\<lambda>c. c = CHR ''/'') (rev file_name))
           in if cut = [] then ''/''
              else rev (takeWhile (\<lambda>c. c \<noteq> CHR ''/'') (rev cut)))"

definition example_extern :: extern where
  "example_extern =
     \<lparr>seaf_repo_manager_get_repo = (\<lambda>rid. None),
      seaf_repo_manager_get_repo_list = [],
      ccnet_get_peer = (\<lambda>pid. Some PEER_CONNECTED),
      seaf_transfer_manager_add_download = (\<lambda>rid pid tok. Some ''tx-1''),
      sqlite_query_exec = (\<lambda>stmt. 0),
      sqlite_garbled = (\<lambda>stmt rows. rows),
      sqlite_foreach_selected_row = None,
      g_dir_open = (\<lambda>path. Some []),
      g_lstat = (\<lambda>path. ENOENT),
      g_access = (\<lambda>path. - 1),
      g_mkdir_with_parents = (\<lambda>path. 0),
      g_build_filename = (\<lambda>parent name. parent @ ''/'' @ name),
      g_path_get_basename = posix_basename,
      seaf_repo_verify_passwd = (\<lambda>repo pw. 0),
      seaf_repo_manager_set_repo_passwd = (\<lambda>repo pw. 0),
      seaf_repo_index_worktree_files =
        (\<lambda>rid wt pw root. (0, ''4b825dc642cb6eb9a060e54bf8d69288fbee4904'')),
      seaf_branch_manager_get_branch = (\<lambda>rid name. Some \<lparr>b_commit_id = ''c1''\<rparr>),
      seaf_commit_manager_get_commit =
        (\<lambda>cid. Some \<lparr>k_commit_id = cid, k_root_id = ''r1'', k_creator_name = ''u''\<rparr>),
      seaf_commit_manager_traverse_commit_tree = (\<lambda>cid. Some []),
      read_index_from = (\<lambda>rid. 0),
      unpack_trees = (\<lambda>a b. 0),
      update_worktree = (\<lambda>cid. 0)\<rparr>"

definition example_id :: string where
  "example_id = ''0a1b2c3d-0000-4000-8000-00000000abcd''"

definition example_task :: "clone_state \<Rightarrow> CloneTask" where
  "example_task s =
     (clone_task_new example_id ''peer'' ''foo'' ''token'' ''/home/u/foo'' None
        ''10.0.0.1'' ''10001'' ''u@example.org'')
     \<lparr>state := s, tx_id := (if s = CLONE_STATE_FETCH then Some ''tx-1'' else None)\<rparr>"

definition example_row :: db_row where
  "example_row =
     \<lparr>c_repo_id = example_id, c_repo_name = ''foo'', c_token = ''token'', c_dest_id = ''peer'',
      c_worktree_parent = ''/home/u/foo'', c_passwd = None, c_server_addr = ''10.0.0.1'',
      c_server_port = ''10001'', c_email = ''u@example.org''\<rparr>"

definition example_mgr :: "clone_state \<Rightarrow> SeafCloneManager" where
  "example_mgr s =
     \<lparr>tasks = [(example_id, example_task s)],
      db = (if terminal s then [] else [example_row]),
      calls = []\<rparr>"

definition encrypted_repo :: "int \<Rightarrow> SeafRepo" where
  "encrypted_repo v =
     \<lparr>r_id = example_id, r_head = None, r_encrypted = True, r_enc_version = v,
      r_worktree = None\<rparr>"

definition plain_repo :: "string option \<Rightarrow> SeafRepo" where
  "plain_repo h =
     \<lparr>r_id = example_id, r_head = h, r_encrypted = False, r_enc_version = 0, r_worktree = None\<rparr>"

definition example_add_task :: event where
  "example_add_task =
     Add_task example_id ''peer'' ''foo'' ''token'' None ''/home/u/foo'' ''10.0.0.1'' ''10001''
       ''u@example.org''"

text \<open>
  \<open>extern_files\<close>: the directory /home/u/foo exists and holds a file. \<open>extern_fetched\<close>:
  moreover the repo has been fetched and has no head yet.
\<close>

definition extern_files :: extern where
  "extern_files =
     example_extern\<lparr>g_dir_open := (\<lambda>path. Some [''a.txt'']), g_lstat := (\<lambda>path. ST_MODE True)\<rparr>"

definition extern_fetched :: extern where
  "extern_fetched = extern_files\<lparr>seaf_repo_manager_get_repo := (\<lambda>rid. Some (plain_repo None))\<rparr>"



lemmas example_defs =
  example_mgr_def example_task_def example_id_def example_row_def example_extern_def
  clone_task_new_def terminal_def

section \<open>Properties\<close>

subsection \<open>Cancelling a task\<close>

text \<open>
  C5, amended. \<open>seaf_clone_manager_cancel_task\<close> on a task that is in the table: in
  CANCEL_PENDING it changes nothing and returns 0; in DONE, ERROR or CANCELED it changes
  nothing and returns -1 (it is not a success); from INIT or CONNECT it moves the task to
  CANCELED and calls nobody; from FETCH it asks the transfer manager to cancel the transfer
  \<open>tx_id\<close> and moves the task to CANCEL_PENDING; from INDEX, CHECKOUT or MERGE it moves the
  task to CANCEL_PENDING and calls nobody.
\<close>

theorem cancel_task_cases:
  assumes "map_of (tasks m) rid = Some task"
  shows "(state task = CLONE_STATE_CANCEL_PENDING \<longrightarrow>
            seaf_clone_manager_cancel_task x m rid = (0, m)) \<and>
         (terminal (state task) \<longrightarrow>
            seaf_clone_manager_cancel_task x m rid = (- 1, m)) \<and>
         (state task = CLONE_STATE_INIT \<or> state task = CLONE_STATE_CONNECT \<longrightarrow>
            (\<exists>m'. seaf_clone_manager_cancel_task x m rid = (0, m') \<and>
                  map_of (tasks m') rid = Some (task\<lparr>state := CLONE_STATE_CANCELED\<rparr>) \<and>
                  calls m' = calls m)) \<and>
         (state task = CLONE_STATE_FETCH \<longrightarrow>
            (\<exists>m'. seaf_clone_manager_cancel_task x m rid = (0, m') \<and>
                  map_of (tasks m') rid = Some (task\<lparr>state := CLONE_STATE_CANCEL_PENDING\<rparr>) \<and>
                  calls m' = calls m @ [Cancel_transfer (tx_id task)] \<and> db m' = db m)) \<and>
         (state task = CLONE_STATE_INDEX \<or> state task = CLONE_STATE_CHECKOUT \<or>
          state task = CLONE_STATE_MERGE \<longrightarrow>
            (\<exists>m'. seaf_clone_manager_cancel_task x m rid = (0, m') \<and>
                  map_of (tasks m') rid = Some (task\<lparr>state := CLONE_STATE_CANCEL_PENDING\<rparr>) \<and>
                  calls m' = calls m \<and> db m' = db m))"
  using assms
  by (cases "state task")
     (auto simp: seaf_clone_manager_cancel_task_def terminal_def store_task_def
        transition_state_def remove_task_from_db_def log_call_def update_conv')

theorem cancel_task_cases_witness:
  "seaf_clone_manager_cancel_task example_extern (example_mgr CLONE_STATE_CANCEL_PENDING) example_id
     = (0, example_mgr CLONE_STATE_CANCEL_PENDING) \<and>
   seaf_clone_manager_cancel_task example_extern (example_mgr CLONE_STATE_ERROR) example_id
     = (- 1, example_mgr CLONE_STATE_ERROR) \<and>
   (\<exists>m'. seaf_clone_manager_cancel_task example_extern (example_mgr CLONE_STATE_CONNECT) example_id
            = (0, m') \<and>
          map_of (tasks m') example_id
            = Some ((example_task CLONE_STATE_CONNECT)\<lparr>state := CLONE_STATE_CANCELED\<rparr>)) \<and>
   (\<exists>m'. seaf_clone_manager_cancel_task example_extern (example_mgr CLONE_STATE_FETCH) example_id
            = (0, m') \<and>
          map_of (tasks m') example_id
            = Some ((example_task CLONE_STATE_FETCH)\<lparr>state := CLONE_STATE_CANCEL_PENDING\<rparr>) \<and>
          calls m' = [Cancel_transfer (Some ''tx-1'')]) \<and>
   (\<exists>m'. seaf_clone_manager_cancel_task example_extern (example_mgr CLONE_STATE_MERGE) example_id
            = (0, m') \<and>
          map_of (tasks m') example_id
            = Some ((example_task CLONE_STATE_MERGE)\<lparr>state := CLONE_STATE_CANCEL_PENDING\<rparr>) \<and>
          calls m' = [])"
proof -
  have found: "map_of (tasks (example_mgr s)) example_id = Some (example_task s)" for s
    by (simp add: example_mgr_def)
  have st: "state (example_task s) = s" for s
    by (simp add: example_task_def)
  have tx: "tx_id (example_task CLONE_STATE_FETCH) = Some ''tx-1''"
    by (simp add: example_task_def)
  have no_calls: "calls (example_mgr s) = []" for s
    by (simp add: example_mgr_def)
  note c = cancel_task_cases [OF found, of _ example_extern]
  show ?thesis
    using c [of CLONE_STATE_CANCEL_PENDING] c [of CLONE_STATE_ERROR] c [of CLONE_STATE_CONNECT]
      c [of CLONE_STATE_FETCH] c [of CLONE_STATE_MERGE]
    by (simp add: st tx no_calls terminal_def) blast
qed

theorem cancel_task_terminal_counterexample:
  "map_of (tasks (example_mgr CLONE_STATE_DONE)) example_id = Some (example_task CLONE_STATE_DONE) \<and>
   state (example_task CLONE_STATE_DONE) = CLONE_STATE_DONE \<and>
   fst (seaf_clone_manager_cancel_task example_extern (example_mgr CLONE_STATE_DONE) example_id)
     = - 1"
  by (simp add: example_defs seaf_clone_manager_cancel_task_def)

subsection \<open>The name check of an admission\<close>

lemma worktree_repo_name_matches_prefix:
  "worktree_repo_name_matches x w n \<longleftrightarrow> prefix n (g_path_get_basename x w)"
proof
  assume "worktree_repo_name_matches x w n"
  then have "take (length n) (g_path_get_basename x w) = n"
    by (simp add: worktree_repo_name_matches_def Let_def split: if_splits)
  then show "prefix n (g_path_get_basename x w)"
    by (metis take_is_prefix)
next
  assume p: "prefix n (g_path_get_basename x w)"
  then have "length n \<le> length (g_path_get_basename x w)"
    by (rule prefix_length_le)
  moreover have "take (length n) (g_path_get_basename x w) = n"
    using p by (auto simp: prefix_def)
  ultimately show "worktree_repo_name_matches x w n"
    by (simp add: worktree_repo_name_matches_def Let_def)
qed

lemma make_worktree_message:
  "fst (make_worktree x m worktree_in False) \<noteq> Inl (GError ''Invalid local directory name'')"
  by (auto simp: make_worktree_def mk_dir_def split: option.splits if_splits)

text \<open>
  C4, amended. The name check compares the other way round: \<open>worktree_repo_name_matches\<close>
  holds exactly when \<open>repo_name\<close> is a byte-prefix of the basename of the requested
  worktree (so that \<open>foo-1\<close> is accepted for the repo \<open>foo\<close>). A call of
  \<open>seaf_clone_manager_add_task\<close> that reaches the name check (the repo id has 36
  characters, the repo is not already checked out, no task for it is running) fails with
  "Invalid local directory name" exactly when \<open>repo_name\<close> is not a prefix of the
  basename, and then leaves the manager as it was: no directory is made and no row is
  written.
\<close>

theorem add_task_name_check:
  assumes "length rid = 36"
    and "\<not> (\<exists>repo. seaf_repo_manager_get_repo x rid = Some repo \<and> r_head repo \<noteq> None)"
    and "\<not> is_duplicate_task m rid"
  shows "(worktree_repo_name_matches x worktree_in rname
            \<longleftrightarrow> prefix rname (g_path_get_basename x worktree_in)) \<and>
         (\<not> prefix rname (g_path_get_basename x worktree_in) \<longrightarrow>
            seaf_clone_manager_add_task x m rid pid rname tok pw worktree_in addr port mail
              = (Inl (GError ''Invalid local directory name''), m)) \<and>
         (prefix rname (g_path_get_basename x worktree_in) \<longrightarrow>
            fst (seaf_clone_manager_add_task x m rid pid rname tok pw worktree_in addr port mail)
              \<noteq> Inl (GError ''Invalid local directory name''))"
  using assms make_worktree_message [of x m worktree_in]
  by (auto simp: seaf_clone_manager_add_task_def Let_def worktree_repo_name_matches_prefix
      split: prod.splits sum.splits)

theorem add_task_name_check_witness:
  "length example_id = 36 \<and>
   \<not> (\<exists>repo. seaf_repo_manager_get_repo example_extern example_id = Some repo \<and>
              r_head repo \<noteq> None) \<and>
   \<not> is_duplicate_task (seaf_clone_manager_new []) example_id \<and>
   \<not> prefix ''foo'' (g_path_get_basename example_extern ''/home/u/bar'') \<and>
   seaf_clone_manager_add_task example_extern (seaf_clone_manager_new []) example_id ''peer''
       ''foo'' ''token'' None ''/home/u/bar'' ''10.0.0.1'' ''10001'' ''u@example.org''
     = (Inl (GError ''Invalid local directory name''), seaf_clone_manager_new []) \<and>
   prefix ''foo'' (g_path_get_basename example_extern ''/home/u/foo-1'') \<and>
   fst (seaf_clone_manager_add_task example_extern (seaf_clone_manager_new []) example_id ''peer''
          ''foo'' ''token'' None ''/home/u/foo-1'' ''10.0.0.1'' ''10001'' ''u@example.org'')
     \<noteq> Inl (GError ''Invalid local directory name'')"
proof -
  have len: "length example_id = 36"
    by (simp add: example_id_def)
  have repo: "\<not> (\<exists>repo. seaf_repo_manager_get_repo example_extern example_id = Some repo \<and>
                        r_head repo \<noteq> None)"
    by (simp add: example_extern_def)
  have dup: "\<not> is_duplicate_task (seaf_clone_manager_new []) example_id"
    by (simp add: is_duplicate_task_def seaf_clone_manager_new_def)
  have bar: "\<not> prefix ''foo'' (g_path_get_basename example_extern ''/home/u/bar'')"
    by (simp add: example_extern_def posix_basename_def)
  have foo: "prefix ''foo'' (g_path_get_basename example_extern ''/home/u/foo-1'')"
    by (simp add: example_extern_def posix_basename_def)
  note t = add_task_name_check [OF len repo dup]
  show ?thesis
    using len repo dup bar foo
      t [of "''/home/u/bar''" "''foo''" "''peer''" "''token''" None "''10.0.0.1''" "''10001''"
           "''u@example.org''"]
      t [of "''/home/u/foo-1''" "''foo''" "''peer''" "''token''" None "''10.0.0.1''" "''10001''"
           "''u@example.org''"]
    by blast
qed

theorem add_task_name_check_counterexample:
  "prefix (g_path_get_basename example_extern ''/tmp/fo'') ''foo'' \<and>
   seaf_clone_manager_add_task example_extern (seaf_clone_manager_new []) example_id ''peer''
       ''foo'' ''token'' None ''/tmp/fo'' ''10.0.0.1'' ''10001'' ''u@example.org''
     = (Inl (GError ''Invalid local directory name''), seaf_clone_manager_new []) \<and>
   \<not> prefix (g_path_get_basename example_extern ''/tmp/foo-1'') ''foo'' \<and>
   fst (seaf_clone_manager_add_task example_extern (seaf_clone_manager_new []) example_id ''peer''
          ''foo'' ''token'' None ''/tmp/foo-1'' ''10.0.0.1'' ''10001'' ''u@example.org'')
     = Inr example_id"
proof -
  have a: "prefix (g_path_get_basename example_extern ''/tmp/fo'') ''foo''"
    by (simp add: example_extern_def posix_basename_def)
  have b: "seaf_clone_manager_add_task example_extern (seaf_clone_manager_new []) example_id
             ''peer'' ''foo'' ''token'' None ''/tmp/fo'' ''10.0.0.1'' ''10001'' ''u@example.org''
           = (Inl (GError ''Invalid local directory name''), seaf_clone_manager_new [])"
    by (simp add: seaf_clone_manager_add_task_def example_extern_def example_id_def
        posix_basename_def is_duplicate_task_def seaf_clone_manager_new_def
        worktree_repo_name_matches_def)
  have c: "\<not> prefix (g_path_get_basename example_extern ''/tmp/foo-1'') ''foo''"
    by (simp add: example_extern_def posix_basename_def)
  have d: "fst (seaf_clone_manager_add_task example_extern (seaf_clone_manager_new [])
                  example_id ''peer'' ''foo'' ''token'' None ''/tmp/foo-1'' ''10.0.0.1''
                  ''10001'' ''u@example.org'')
           = Inr example_id"
    by code_simp
  show ?thesis using a b c d by blast
qed

subsection \<open>Generating a worktree path\<close>

lemma try_worktree_loop_form:
  "try_worktree_loop x wt c = Some p \<Longrightarrow> \<exists>c' :: 32 word. p = wt @ ''-'' @ show_int (sint c')"
proof (induction x wt c rule: try_worktree_loop.induct)
  case (1 x wt cnt)
  show ?case
  proof (cases "g_access x (wt @ ''-'' @ show_int (sint cnt)) < 0")
    case True
    then have "p = wt @ ''-'' @ show_int (sint cnt)"
      using "1.prems" by (simp add: try_worktree_loop.simps [of x wt cnt])
    then show ?thesis by blast
  next
    case False
    then have ne: "cnt + 1 \<noteq> - 1" and rec: "try_worktree_loop x wt (cnt + 1) = Some p"
      using "1.prems" by (auto simp: try_worktree_loop.simps [of x wt cnt] Let_def split: if_splits)
    show ?thesis
      using "1.IH" [OF refl refl False ne rec] .
  qed
qed

lemma mk_dir_dry:
  "mk_dir x True ret m = (case ret of None \<Rightarrow> (Inl Null, m) | Some path \<Rightarrow> (Inr path, m))"
  by (simp add: mk_dir_def split: option.splits)

lemma make_worktree_dry:
  assumes "strip_trailing w = Some wt"
  shows "make_worktree x m w True = (Inl Null, m) \<or>
         make_worktree x m w True = (Inr wt, m) \<or>
         (\<exists>c :: 32 word. make_worktree x m w True = (Inr (wt @ ''-'' @ show_int (sint c)), m))"
proof (cases "try_worktree x wt")
  case None
  then show ?thesis using assms by (simp add: make_worktree_def mk_dir_dry)
next
  case (Some p)
  then obtain c :: "32 word" where "p = wt @ ''-'' @ show_int (sint c)"
    unfolding try_worktree_def using try_worktree_loop_form by blast
  then show ?thesis using assms Some by (auto simp: make_worktree_def mk_dir_dry)
qed

lemma gen_default_worktree_times_same:
  assumes "seaf_clone_manager_gen_default_worktree x m parent rname = (r, m)"
  shows "gen_default_worktree_times k x m parent rname = (replicate k r, m)"
  using assms by (induction k) auto

text \<open>
  C7, amended. When the path built from the parent and the repo name has a character other
  than a separator, \<open>seaf_clone_manager_gen_default_worktree\<close> returns a path and leaves
  the manager as it was (it makes no directory, and calls nobody). The path is the built
  path without its trailing separators, or that path with \<open>-N\<close> appended, or the built
  path itself when \<open>try_worktree\<close> gave up. Because nothing has changed, calling it again
  returns the same path: \<open>k\<close> calls in a row return \<open>k\<close> times the same path, not \<open>k\<close>
  distinct ones.
\<close>

theorem gen_default_worktree_repeats:
  assumes "strip_trailing (g_build_filename x worktree_parent rname) = Some wt"
  shows "\<exists>path. seaf_clone_manager_gen_default_worktree x m worktree_parent rname = (Inr path, m) \<and>
           gen_default_worktree_times k x m worktree_parent rname = (replicate k (Inr path), m) \<and>
           (path = wt \<or> (\<exists>c :: 32 word. path = wt @ ''-'' @ show_int (sint c)) \<or>
            path = g_build_filename x worktree_parent rname)"
proof -
  from make_worktree_dry [OF assms, of x m]
  have "\<exists>path. seaf_clone_manager_gen_default_worktree x m worktree_parent rname = (Inr path, m) \<and>
           (path = wt \<or> (\<exists>c :: 32 word. path = wt @ ''-'' @ show_int (sint c)) \<or>
            path = g_build_filename x worktree_parent rname)"
    by (auto simp: seaf_clone_manager_gen_default_worktree_def Let_def)
  then show ?thesis
    using gen_default_worktree_times_same by blast
qed

theorem gen_default_worktree_repeats_witness:
  "strip_trailing (g_build_filename example_extern ''/home/u/'' ''foo'') = Some ''/home/u//foo'' \<and>
   seaf_clone_manager_gen_default_worktree example_extern (seaf_clone_manager_new [])
       ''/home/u/'' ''foo''
     = (Inr ''/home/u//foo'', seaf_clone_manager_new []) \<and>
   gen_default_worktree_times 3 example_extern (seaf_clone_manager_new []) ''/home/u/'' ''foo''
     = (replicate 3 (Inr ''/home/u//foo''), seaf_clone_manager_new [])"
proof -
  have s: "strip_trailing (g_build_filename example_extern ''/home/u/'' ''foo'') = Some ''/home/u//foo''"
    by (simp add: example_extern_def strip_trailing.simps)
  have g: "seaf_clone_manager_gen_default_worktree example_extern (seaf_clone_manager_new [])
       ''/home/u/'' ''foo'' = (Inr ''/home/u//foo'', seaf_clone_manager_new [])"
    by code_simp
  from gen_default_worktree_repeats [OF s, of "seaf_clone_manager_new []" 3] g s
  show ?thesis by auto
qed

theorem gen_default_worktree_counterexample:
  "fst (gen_default_worktree_times 2 example_extern (seaf_clone_manager_new []) ''/home/u'' ''foo'')
     = [Inr ''/home/u/foo'', Inr ''/home/u/foo'']"
  by code_simp

subsection \<open>The password of an encrypted repo\<close>

lemma calls_remove_task_from_db: "calls (snd (remove_task_from_db x rid m)) = calls m"
  by (simp add: remove_task_from_db_def)

text \<open>
  C6, amended. For an encrypted repo, \<open>start_checkout\<close> moves the task to ERROR with the
  error PASSWD, and schedules neither a checkout nor a merge (it calls nobody), when the
  task has no password, and when the repo has \<open>enc_version >= 1\<close> and
  \<open>seaf_repo_verify_passwd\<close> rejects the password. For an encrypted repo with
  \<open>enc_version < 1\<close> the password is not verified: whatever the verification would say,
  \<open>start_checkout\<close> hands the password to \<open>seaf_repo_manager_set_repo_passwd\<close>. When
  that fails, the task moves to ERROR with the error INTERNAL and neither a checkout nor a
  merge is scheduled (the call that sets the password is the only one made); otherwise
  \<open>start_checkout\<close> goes on to schedule the checkout or the merge.
\<close>

theorem start_checkout_password:
  assumes "r_encrypted repo"
  shows "(passwd task = None \<or>
          (\<exists>pw. passwd task = Some pw \<and> 1 \<le> r_enc_version repo \<and>
                seaf_repo_verify_passwd x repo pw < 0) \<longrightarrow>
            state (fst (start_checkout x repo (task, m))) = CLONE_STATE_ERROR \<and>
            error (fst (start_checkout x repo (task, m))) = CLONE_ERROR_PASSWD \<and>
            calls (snd (start_checkout x repo (task, m))) = calls m) \<and>
         (\<forall>pw. passwd task = Some pw \<and> r_enc_version repo < 1 \<longrightarrow>
            (if seaf_repo_manager_set_repo_passwd x repo pw < 0
             then state (fst (start_checkout x repo (task, m))) = CLONE_STATE_ERROR \<and>
                  error (fst (start_checkout x repo (task, m))) = CLONE_ERROR_INTERNAL \<and>
                  calls (snd (start_checkout x repo (task, m)))
                    = calls m @ [Set_repo_passwd (r_id repo) pw]
             else start_checkout x repo (task, m)
                    = schedule_checkout_or_merge x repo
                        (task, log_call (Set_repo_passwd (r_id repo) pw) m)))"
  using assms
  by (auto simp: start_checkout_def transition_to_error_def calls_remove_task_from_db
      log_call_def)

theorem start_checkout_password_witness:
  "r_encrypted (encrypted_repo 1) \<and>
   state (fst (start_checkout example_extern (encrypted_repo 1)
                 (example_task CLONE_STATE_FETCH, example_mgr CLONE_STATE_FETCH)))
     = CLONE_STATE_ERROR \<and>
   error (fst (start_checkout example_extern (encrypted_repo 1)
                 (example_task CLONE_STATE_FETCH, example_mgr CLONE_STATE_FETCH)))
     = CLONE_ERROR_PASSWD \<and>
   calls (snd (start_checkout example_extern (encrypted_repo 1)
                 (example_task CLONE_STATE_FETCH, example_mgr CLONE_STATE_FETCH)))
     = [] \<and>
   state (fst (start_checkout (example_extern\<lparr>seaf_repo_verify_passwd := (\<lambda>repo pw. - 1)\<rparr>)
                 (encrypted_repo 1)
                 ((example_task CLONE_STATE_FETCH)\<lparr>passwd := Some ''wrong''\<rparr>,
                  example_mgr CLONE_STATE_FETCH)))
     = CLONE_STATE_ERROR \<and>
   start_checkout example_extern (encrypted_repo 0)
       ((example_task CLONE_STATE_FETCH)\<lparr>passwd := Some ''pw''\<rparr>, example_mgr CLONE_STATE_FETCH)
     = schedule_checkout_or_merge example_extern (encrypted_repo 0)
         ((example_task CLONE_STATE_FETCH)\<lparr>passwd := Some ''pw''\<rparr>,
          log_call (Set_repo_passwd (r_id (encrypted_repo 0)) ''pw'')
            (example_mgr CLONE_STATE_FETCH)) \<and>
   state (fst (start_checkout
                 (example_extern\<lparr>seaf_repo_manager_set_repo_passwd := (\<lambda>repo pw. - 1)\<rparr>)
                 (encrypted_repo 0)
                 ((example_task CLONE_STATE_FETCH)\<lparr>passwd := Some ''pw''\<rparr>,
                  example_mgr CLONE_STATE_FETCH)))
     = CLONE_STATE_ERROR \<and>
   error (fst (start_checkout
                 (example_extern\<lparr>seaf_repo_manager_set_repo_passwd := (\<lambda>repo pw. - 1)\<rparr>)
                 (encrypted_repo 0)
                 ((example_task CLONE_STATE_FETCH)\<lparr>passwd := Some ''pw''\<rparr>,
                  example_mgr CLONE_STATE_FETCH)))
     = CLONE_ERROR_INTERNAL \<and>
   calls (snd (start_checkout
                 (example_extern\<lparr>seaf_repo_manager_set_repo_passwd := (\<lambda>repo pw. - 1)\<rparr>)
                 (encrypted_repo 0)
                 ((example_task CLONE_STATE_FETCH)\<lparr>passwd := Some ''pw''\<rparr>,
                  example_mgr CLONE_STATE_FETCH)))
     = [Set_repo_passwd (r_id (encrypted_repo 0)) ''pw'']"
proof -
  have enc: "r_encrypted (encrypted_repo v)" for v
    by (simp add: encrypted_repo_def)
  have none: "passwd (example_task CLONE_STATE_FETCH) = None"
    by (simp add: example_task_def clone_task_new_def)
  have some: "passwd ((example_task CLONE_STATE_FETCH)\<lparr>passwd := Some pw\<rparr>) = Some pw" for pw
    by simp
  have v: "r_enc_version (encrypted_repo k) = k" for k
    by (simp add: encrypted_repo_def)
  have rej: "seaf_repo_verify_passwd (example_extern\<lparr>seaf_repo_verify_passwd := (\<lambda>repo pw. - 1)\<rparr>)
               (encrypted_repo 1) ''wrong'' < 0"
    by simp
  have set: "\<not> seaf_repo_manager_set_repo_passwd example_extern (encrypted_repo 0) ''pw'' < 0"
    by (simp add: example_extern_def)
  have fail: "seaf_repo_manager_set_repo_passwd
                (example_extern\<lparr>seaf_repo_manager_set_repo_passwd := (\<lambda>repo pw. - 1)\<rparr>)
                (encrypted_repo 0) ''pw'' < 0"
    by simp
  have no_calls: "calls (example_mgr CLONE_STATE_FETCH) = []"
    by (simp add: example_mgr_def)
  show ?thesis
    using enc [of 1]
      start_checkout_password [OF enc [of 1], of "example_task CLONE_STATE_FETCH" example_extern
        "example_mgr CLONE_STATE_FETCH"]
      start_checkout_password [OF enc [of 1],
        of "(example_task CLONE_STATE_FETCH)\<lparr>passwd := Some ''wrong''\<rparr>"
           "example_extern\<lparr>seaf_repo_verify_passwd := (\<lambda>repo pw. - 1)\<rparr>"
           "example_mgr CLONE_STATE_FETCH"]
      start_checkout_password [OF enc [of 0],
        of "(example_task CLONE_STATE_FETCH)\<lparr>passwd := Some ''pw''\<rparr>" example_extern
           "example_mgr CLONE_STATE_FETCH"]
      start_checkout_password [OF enc [of 0],
        of "(example_task CLONE_STATE_FETCH)\<lparr>passwd := Some ''pw''\<rparr>"
           "example_extern\<lparr>seaf_repo_manager_set_repo_passwd := (\<lambda>repo pw. - 1)\<rparr>"
           "example_mgr CLONE_STATE_FETCH"]
      none some v rej set fail no_calls
    by simp
qed

theorem start_checkout_password_counterexample:
  "r_encrypted (encrypted_repo 0) \<and>
   seaf_repo_verify_passwd (example_extern\<lparr>seaf_repo_verify_passwd := (\<lambda>repo pw. - 1)\<rparr>)
       (encrypted_repo 0) ''wrong'' < 0 \<and>
   state (fst (start_checkout (example_extern\<lparr>seaf_repo_verify_passwd := (\<lambda>repo pw. - 1)\<rparr>)
                 (encrypted_repo 0)
                 ((example_task CLONE_STATE_FETCH)\<lparr>passwd := Some ''wrong''\<rparr>,
                  example_mgr CLONE_STATE_FETCH)))
     = CLONE_STATE_CHECKOUT \<and>
   calls (snd (start_checkout (example_extern\<lparr>seaf_repo_verify_passwd := (\<lambda>repo pw. - 1)\<rparr>)
                 (encrypted_repo 0)
                 ((example_task CLONE_STATE_FETCH)\<lparr>passwd := Some ''wrong''\<rparr>,
                  example_mgr CLONE_STATE_FETCH)))
     = [Set_repo_passwd example_id ''wrong'', Add_checkout_task example_id ''/home/u/foo'']"
  by (simp add: start_checkout_def schedule_checkout_or_merge_def is_non_empty_directory_def
      transition_state_def log_call_def encrypted_repo_def example_task_def example_mgr_def
      example_extern_def clone_task_new_def)

subsection \<open>A merge that has to index first\<close>

text \<open>
  C10. When \<open>merge_job\<close> runs on a task whose \<open>root_id\<close> is still zero, it first calls
  \<open>seaf_repo_index_worktree_files\<close> on the task's worktree. If that fails, the job
  returns without merging, with \<open>success\<close> as \<open>g_new0\<close> left it (FALSE), and
  \<open>merge_job_done\<close> moves the task to ERROR with the error MERGE. If it succeeds, the
  merge runs with the \<open>root_id\<close> that the indexing wrote.
\<close>

theorem merge_job_indexes_first:
  assumes "root_id task = []"
    and "seaf_repo_index_worktree_files x (repo_id task) (worktree task) (passwd task) []
           = (rc, root)"
  shows "(rc < 0 \<longrightarrow>
            merge_job x repo False (task, m)
              = (False, (task\<lparr>root_id := root\<rparr>,
                         log_call (Index_worktree (repo_id task) (worktree task)) m)) \<and>
            (\<exists>tm. merge_job_done x repo (fst (merge_job x repo False (task, m)))
                      (snd (merge_job x repo False (task, m))) = Inr tm \<and>
                  state (fst tm) = CLONE_STATE_ERROR \<and>
                  error (fst tm) = CLONE_ERROR_MERGE)) \<and>
         (0 \<le> rc \<longrightarrow>
            merge_job x repo False (task, m)
              = merge_job_merge x repo False
                  (task\<lparr>root_id := root\<rparr>,
                   log_call (Index_worktree (repo_id task) (worktree task)) m))"
  using assms
  by (auto simp: merge_job_def merge_job_done_def transition_to_error_def)

theorem merge_job_indexes_first_witness:
  "root_id (example_task CLONE_STATE_MERGE) = [] \<and>
   (\<exists>tm. merge_job_done (example_extern\<lparr>seaf_repo_index_worktree_files := (\<lambda>rid wt pw root. (- 1, root))\<rparr>)
            (encrypted_repo 0)
            (fst (merge_job (example_extern\<lparr>seaf_repo_index_worktree_files := (\<lambda>rid wt pw root. (- 1, root))\<rparr>)
                    (encrypted_repo 0) False
                    (example_task CLONE_STATE_MERGE, example_mgr CLONE_STATE_MERGE)))
            (snd (merge_job (example_extern\<lparr>seaf_repo_index_worktree_files := (\<lambda>rid wt pw root. (- 1, root))\<rparr>)
                    (encrypted_repo 0) False
                    (example_task CLONE_STATE_MERGE, example_mgr CLONE_STATE_MERGE)))
          = Inr tm \<and>
          state (fst tm) = CLONE_STATE_ERROR \<and> error (fst tm) = CLONE_ERROR_MERGE) \<and>
   merge_job example_extern (encrypted_repo 0) False
       (example_task CLONE_STATE_MERGE, example_mgr CLONE_STATE_MERGE)
     = merge_job_merge example_extern (encrypted_repo 0) False
         ((example_task CLONE_STATE_MERGE)
            \<lparr>root_id := ''4b825dc642cb6eb9a060e54bf8d69288fbee4904''\<rparr>,
          log_call (Index_worktree example_id ''/home/u/foo'') (example_mgr CLONE_STATE_MERGE))"
proof -
  have root: "root_id (example_task CLONE_STATE_MERGE) = []"
    by (simp add: example_task_def clone_task_new_def)
  have rid: "repo_id (example_task CLONE_STATE_MERGE) = example_id"
    and wt: "worktree (example_task CLONE_STATE_MERGE) = ''/home/u/foo''"
    by (simp_all add: example_task_def clone_task_new_def)
  have bad: "seaf_repo_index_worktree_files
               (example_extern\<lparr>seaf_repo_index_worktree_files := (\<lambda>rid wt pw root. (- 1, root))\<rparr>)
               (repo_id (example_task CLONE_STATE_MERGE)) (worktree (example_task CLONE_STATE_MERGE))
               (passwd (example_task CLONE_STATE_MERGE)) [] = (- 1, [])"
    by simp
  have good: "seaf_repo_index_worktree_files example_extern
               (repo_id (example_task CLONE_STATE_MERGE)) (worktree (example_task CLONE_STATE_MERGE))
               (passwd (example_task CLONE_STATE_MERGE)) []
             = (0, ''4b825dc642cb6eb9a060e54bf8d69288fbee4904'')"
    by (simp add: example_extern_def)
  show ?thesis
    using root
      merge_job_indexes_first [OF root bad, of "encrypted_repo 0" "example_mgr CLONE_STATE_MERGE"]
      merge_job_indexes_first [OF root good, of "encrypted_repo 0" "example_mgr CLONE_STATE_MERGE"]
    by (auto simp: rid wt)
qed

subsection \<open>What the handlers do to a task and to the hash table\<close>

lemmas handler_defs =
  transition_state_def transition_to_error_def add_transfer_task_def index_files_job_def
  index_files_done_def start_index_or_transfer_def start_connect_task_relay_def
  continue_task_when_peer_connected_def schedule_checkout_or_merge_def start_checkout_def
  merge_job_done_def remove_task_from_db_def log_call_def

lemma state_index_files_done:
  "state (fst (index_files_done x b tm)) \<in>
     {CLONE_STATE_ERROR, CLONE_STATE_CANCELED, CLONE_STATE_FETCH}"
  by (cases tm) (auto simp: handler_defs Let_def split: prod.splits)

lemma state_start_index_or_transfer:
  "state (fst (snd (start_index_or_transfer x tm))) \<in>
     {CLONE_STATE_INDEX, CLONE_STATE_FETCH, CLONE_STATE_ERROR}"
  by (cases tm) (auto simp: handler_defs Let_def split: prod.splits)

lemma state_start_connect_task_relay:
  "state (fst (start_connect_task_relay x tm)) = CLONE_STATE_CONNECT"
  by (cases tm) (auto simp: handler_defs Let_def split: prod.splits)

lemma state_start_checkout:
  "state (fst (start_checkout x repo tm)) \<in>
     {CLONE_STATE_ERROR, CLONE_STATE_CHECKOUT, CLONE_STATE_MERGE}"
  by (cases tm) (auto simp: handler_defs Let_def split: prod.splits)

lemma state_continue:
  "state (fst (continue_task_when_peer_connected x tm)) \<in>
     {state (fst tm), CLONE_STATE_INDEX, CLONE_STATE_FETCH, CLONE_STATE_ERROR}"
  using state_start_index_or_transfer [of x tm]
  by (auto simp: continue_task_when_peer_connected_def split: option.splits peer_net_state.splits)

lemma merge_job_merge_task: "fst (snd (merge_job_merge x repo b tm)) = fst tm"
  by (cases tm)
     (auto simp: merge_job_merge_def real_merge_def fast_forward_checkout_def Let_def
        split: option.splits prod.splits if_splits)

lemma merge_job_state: "state (fst (snd (merge_job x repo b tm))) = state (fst tm)"
  by (cases tm) (auto simp: merge_job_def merge_job_merge_task split: prod.splits)

lemma merge_job_tx: "tx_id (fst (snd (merge_job x repo b tm))) = tx_id (fst tm)"
  by (cases tm) (auto simp: merge_job_def merge_job_merge_task split: prod.splits)


lemma map_of_store_task:
  "map_of (tasks (store_task key (t, m))) rid = (if rid = key then Some t else map_of (tasks m) rid)"
  by (simp add: store_task_def update_conv')

lemma map_of_store_task':
  "map_of (tasks (store_task key tm)) rid =
     (if rid = key then Some (fst tm) else map_of (tasks (snd tm)) rid)"
  by (cases tm) (simp add: map_of_store_task)

lemma tasks_transition_state: "tasks (snd (transition_state x s tm)) = tasks (snd tm)"
  by (cases tm) (auto simp: handler_defs)

lemma tasks_transition_to_error: "tasks (snd (transition_to_error x e tm)) = tasks (snd tm)"
  by (cases tm) (auto simp: handler_defs)

lemma tasks_index_files_job: "tasks (snd (snd (index_files_job x tm))) = tasks (snd tm)"
  by (cases tm) (auto simp: handler_defs split: prod.splits)

lemma tasks_index_files_done: "tasks (snd (index_files_done x b tm)) = tasks (snd tm)"
  by (cases tm) (auto simp: handler_defs Let_def split: prod.splits)

lemma tasks_start_index_or_transfer:
  "tasks (snd (snd (start_index_or_transfer x tm))) = tasks (snd tm)"
  by (cases tm) (auto simp: handler_defs Let_def split: prod.splits)

lemma tasks_start_connect_task_relay:
  "tasks (snd (start_connect_task_relay x tm)) = tasks (snd tm)"
  by (cases tm) (auto simp: handler_defs Let_def split: prod.splits)

lemma tasks_continue:
  "tasks (snd (continue_task_when_peer_connected x tm)) = tasks (snd tm)"
  using tasks_start_index_or_transfer [of x tm]
  by (auto simp: continue_task_when_peer_connected_def split: option.splits peer_net_state.splits)

lemma tasks_start_checkout: "tasks (snd (start_checkout x repo tm)) = tasks (snd tm)"
  by (cases tm) (auto simp: handler_defs Let_def split: prod.splits)

lemma tasks_merge_job_merge: "tasks (snd (snd (merge_job_merge x repo b tm))) = tasks (snd tm)"
  by (cases tm)
     (auto simp: merge_job_merge_def real_merge_def fast_forward_checkout_def Let_def log_call_def
        split: option.splits prod.splits if_splits)

lemma tasks_merge_job: "tasks (snd (snd (merge_job x repo b tm))) = tasks (snd tm)"
  by (cases tm) (auto simp: merge_job_def tasks_merge_job_merge log_call_def split: prod.splits)

lemma tasks_merge_job_done:
  "merge_job_done x repo b tm = Inr tm' \<Longrightarrow> tasks (snd tm') = tasks (snd tm)"
  by (cases tm) (auto simp: handler_defs Let_def split: if_splits)

lemma tasks_remove_task_from_db: "tasks (snd (remove_task_from_db x rid m)) = tasks m"
  by (simp add: remove_task_from_db_def)

lemma tasks_log_call: "tasks (log_call c m) = tasks m"
  by (simp add: log_call_def)

lemma state_transition_state: "state (fst (transition_state x s tm)) = s"
  by (cases tm) (simp add: transition_state_def Let_def)

lemma state_transition_to_error: "state (fst (transition_to_error x e tm)) = CLONE_STATE_ERROR"
  by (cases tm) (simp add: transition_to_error_def)

lemmas tasks_handlers =
  tasks_remove_task_from_db tasks_log_call tasks_transition_state tasks_transition_to_error tasks_index_files_job tasks_index_files_done
  tasks_start_index_or_transfer tasks_start_connect_task_relay tasks_continue
  tasks_start_checkout tasks_merge_job

lemma pulse_induct:
  assumes "P m"
    and "\<And>m1 key task. P m1 \<Longrightarrow> map_of (tasks m1) key = Some task \<Longrightarrow>
           state task = CLONE_STATE_CONNECT \<Longrightarrow>
           P (store_task key (continue_task_when_peer_connected x (task, m1)))"
  shows "P (check_connect_pulse x m)"
proof -
  have "P (fold (\<lambda>key m1.
             case map_of (tasks m1) key of
               None \<Rightarrow> m1
             | Some task \<Rightarrow>
                 if state task = CLONE_STATE_CONNECT
                 then store_task key (continue_task_when_peer_connected x (task, m1))
                 else m1) keys m0)" if "P m0" for keys m0
    using that
  proof (induction keys arbitrary: m0)
    case Nil
    then show ?case by simp
  next
    case (Cons key keys)
    show ?case
      by (auto simp: Cons.prems assms(2) intro!: Cons.IH split: option.splits)
  qed
  then show ?thesis
    unfolding check_connect_pulse_def using assms(1) by blast
qed


lemma tasks_make_worktree: "tasks (snd (make_worktree x m w dry)) = tasks m"
  by (auto simp: make_worktree_def mk_dir_def log_call_def split: option.splits)

lemma repo_id_start_checkout: "repo_id (fst (start_checkout x repo tm)) = repo_id (fst tm)"
  by (cases tm) (auto simp: handler_defs Let_def split: prod.splits)

lemma repo_id_start_connect: "repo_id (fst (start_connect_task_relay x tm)) = repo_id (fst tm)"
  by (cases tm) (auto simp: handler_defs Let_def split: prod.splits)

lemma repo_id_start_index_or_transfer:
  "repo_id (fst (snd (start_index_or_transfer x tm))) = repo_id (fst tm)"
  by (cases tm) (auto simp: handler_defs Let_def split: prod.splits)

text \<open>What a call of add_task leaves in the hash table.\<close>

lemma add_task_tasks:
  assumes "seaf_clone_manager_add_task x m rid pid rname tok pw w addr port mail = (r, m')"
  shows "(r \<noteq> Inr rid \<and> tasks m' = tasks m) \<or>
         (\<exists>t. r = Inr rid \<and> tasks m' = AList.update rid t (tasks m) \<and> repo_id t = rid \<and>
              state t \<in> {CLONE_STATE_ERROR, CLONE_STATE_CHECKOUT, CLONE_STATE_MERGE,
                         CLONE_STATE_CONNECT, CLONE_STATE_INDEX, CLONE_STATE_FETCH})"
proof -
  let ?mw = "make_worktree x m w False"
  have tm: "tasks (snd ?mw) = tasks m" by (rule tasks_make_worktree)
  show ?thesis
  proof (cases "fst ?mw")
    case (Inl e)
    then show ?thesis using assms tm
      by (cases ?mw) (auto simp: seaf_clone_manager_add_task_def Let_def split: if_splits)
  next
    case (Inr wtree)
    obtain m1 where mw: "?mw = (Inr wtree, m1)" using Inr by (cases ?mw) auto
    have t1: "tasks m1 = tasks m" using tm mw by simp
    let ?task = "clone_task_new rid pid rname tok wtree pw addr port mail"
    have rid: "repo_id ?task = rid" by (simp add: clone_task_new_def)
    obtain rc m2 where sv: "save_task_to_db x ?task m1 = (rc, m2)"
      by (cases "save_task_to_db x ?task m1")
    have t2: "tasks m2 = tasks m" using sv t1
      by (auto simp: save_task_to_db_def Let_def split: if_splits)
    show ?thesis
      using assms mw sv t2 rid
        state_start_checkout [of x "the (seaf_repo_manager_get_repo x rid)" "(?task, m2)"]
        state_start_connect_task_relay [of x "(?task, m2)"]
        state_start_index_or_transfer [of x "(?task, m2)"]
        tasks_start_checkout [of x "the (seaf_repo_manager_get_repo x rid)" "(?task, m2)"]
        tasks_start_connect_task_relay [of x "(?task, m2)"]
        tasks_start_index_or_transfer [of x "(?task, m2)"]
        repo_id_start_checkout [of x "the (seaf_repo_manager_get_repo x rid)" "(?task, m2)"]
        repo_id_start_connect [of x "(?task, m2)"]
        repo_id_start_index_or_transfer [of x "(?task, m2)"]
      by (auto simp: seaf_clone_manager_add_task_def Let_def store_task_def
          split: if_splits prod.splits)
  qed
qed


lemma not_done_start_checkout: "state (fst (start_checkout x repo tm)) \<noteq> CLONE_STATE_DONE"
  using state_start_checkout [of x repo tm] by auto


lemma cancel_task_after:
  assumes "map_of (tasks (snd (seaf_clone_manager_cancel_task x m key))) rid = Some t'"
  shows "map_of (tasks m) rid = Some t' \<or>
         (rid = key \<and> (\<exists>t. map_of (tasks m) rid = Some t \<and>
            (t' = t\<lparr>state := CLONE_STATE_CANCELED\<rparr> \<or> t' = t\<lparr>state := CLONE_STATE_CANCEL_PENDING\<rparr>)))"
  using assms
  by (auto simp: seaf_clone_manager_cancel_task_def map_of_store_task' transition_state_def
      remove_task_from_db_def log_call_def Let_def
      split: option.splits clone_state.splits if_splits)

lemma remove_task_after:
  assumes "map_of (tasks (snd (seaf_clone_manager_remove_task x m key))) rid = Some t'"
  shows "map_of (tasks m) rid = Some t'"
  using assms
  by (auto simp: seaf_clone_manager_remove_task_def delete_conv' log_call_def Let_def
      split: option.splits if_splits)

lemma pulse_done:
  assumes "map_of (tasks (check_connect_pulse x m)) rid = Some t'" and "state t' = CLONE_STATE_DONE"
  shows "\<exists>t. map_of (tasks m) rid = Some t \<and> state t = CLONE_STATE_DONE"
proof -
  have "\<forall>rid t'. map_of (tasks (check_connect_pulse x m)) rid = Some t' \<and> state t' = CLONE_STATE_DONE
          \<longrightarrow> (\<exists>t. map_of (tasks m) rid = Some t \<and> state t = CLONE_STATE_DONE)"
  proof (rule pulse_induct)
    show "\<forall>rid t'. map_of (tasks m) rid = Some t' \<and> state t' = CLONE_STATE_DONE
            \<longrightarrow> (\<exists>t. map_of (tasks m) rid = Some t \<and> state t = CLONE_STATE_DONE)"
      by blast
  next
    fix m1 :: SeafCloneManager and key task
    assume ih: "\<forall>rid t'. map_of (tasks m1) rid = Some t' \<and> state t' = CLONE_STATE_DONE
                  \<longrightarrow> (\<exists>t. map_of (tasks m) rid = Some t \<and> state t = CLONE_STATE_DONE)"
      and "map_of (tasks m1) key = Some task" and c: "state task = CLONE_STATE_CONNECT"
    show "\<forall>rid t'. map_of (tasks (store_task key (continue_task_when_peer_connected x (task, m1)))) rid
                     = Some t' \<and> state t' = CLONE_STATE_DONE
            \<longrightarrow> (\<exists>t. map_of (tasks m) rid = Some t \<and> state t = CLONE_STATE_DONE)"
      using ih c state_continue [of x "(task, m1)"] tasks_continue [of x "(task, m1)"]
      by (auto simp: map_of_store_task' split: if_splits)
  qed
  then show ?thesis using assms by blast
qed

lemma step_done:
  assumes "step x ev m = Inr m'" and "map_of (tasks m') rid = Some task'"
    and "state task' = CLONE_STATE_DONE"
  shows "\<exists>task. map_of (tasks m) rid = Some task \<and>
           (state task = CLONE_STATE_DONE \<or>
            (state task = CLONE_STATE_CHECKOUT \<and> ev = Checkout_done True rid) \<or>
            (state task = CLONE_STATE_MERGE \<and>
             (\<exists>repo. ev = Merge_job_finished rid repo \<and> fst (merge_job x repo False (task, m)))))"
proof (cases ev)
  case (Add_task r pid rname tok pw w addr port mail)
  obtain res m2 where a: "seaf_clone_manager_add_task x m r pid rname tok pw w addr port mail = (res, m2)"
    by (cases "seaf_clone_manager_add_task x m r pid rname tok pw w addr port mail")
  have m': "m' = m2" using assms(1) Add_task a
    by (auto simp: step_def split: sum.splits failure.splits)
  show ?thesis
    using add_task_tasks [OF a] assms(2,3) m'
    by (auto simp: update_conv' split: if_splits)
next
  case (Cancel_task key)
  then have "m' = snd (seaf_clone_manager_cancel_task x m key)"
    using assms(1) by (simp add: step_def)
  then show ?thesis using cancel_task_after [of x m key rid task'] assms(2,3) by auto
next
  case (Remove_task key)
  then have "m' = snd (seaf_clone_manager_remove_task x m key)"
    using assms(1) by (simp add: step_def)
  then show ?thesis using remove_task_after [of x m key rid task'] assms(2,3) by auto
next
  case Connect_pulse
  then have "m' = check_connect_pulse x m" using assms(1) by (simp add: step_def)
  then show ?thesis using pulse_done assms(2,3) by blast
next
  case (Index_files_finished key)
  then obtain task where t: "map_of (tasks m) key = Some task"
    and m': "m' = store_task key (index_files_done x (fst (index_files_job x (task, m)))
                                   (snd (index_files_job x (task, m))))"
    using assms(1) by (auto simp: step_def split: option.splits prod.splits)
  show ?thesis
    using assms(2,3) m' t
      state_index_files_done [of x "fst (index_files_job x (task, m))" "snd (index_files_job x (task, m))"]
    by (auto simp: map_of_store_task' tasks_index_files_done tasks_index_files_job split: if_splits)
next
  case (Merge_job_finished key repo)
  then obtain task tm' where t: "map_of (tasks m) key = Some task"
    and d: "merge_job_done x repo (fst (merge_job x repo False (task, m)))
              (snd (merge_job x repo False (task, m))) = Inr tm'"
    and m': "m' = store_task key tm'"
    using assms(1) by (auto simp: step_def split: option.splits prod.splits sum.splits)
  have other: "tasks (snd tm') = tasks m"
    using tasks_merge_job_done [OF d] by (simp add: tasks_merge_job)
  have "state (fst tm') = CLONE_STATE_DONE \<Longrightarrow>
          fst (merge_job x repo False (task, m)) \<and> state task = CLONE_STATE_MERGE"
    using d merge_job_state [of x repo False "(task, m)"]
    by (cases "snd (merge_job x repo False (task, m))")
       (auto simp: merge_job_done_def transition_state_def transition_to_error_def Let_def
          split: if_splits)
  then show ?thesis
    using assms(2,3) m' t other Merge_job_finished
    by (auto simp: map_of_store_task' split: if_splits)
next
  case (Repo_fetched tx_task)
  then have f: "on_repo_fetched x tx_task m = Inr m'" using assms(1) by (simp add: step_def)
  show ?thesis
  proof (cases "t_is_clone tx_task")
    case False
    then show ?thesis using f assms(2,3) by (auto simp: on_repo_fetched_def)
  next
    case True
    then show ?thesis
      using f assms(2,3)
      by (auto simp: on_repo_fetched_def map_of_store_task' tasks_handlers
          state_transition_state state_transition_to_error
          not_done_start_checkout split: option.splits if_splits)
  qed
next
  case (Checkout_done b key)
  then have f: "on_checkout_done x b key m = Inr m'" using assms(1) by (simp add: step_def)
  then show ?thesis
    using assms(2,3) Checkout_done
    by (auto simp: on_checkout_done_def map_of_store_task' tasks_handlers
        state_transition_state state_transition_to_error split: option.splits if_splits)
qed


lemma fold_restart_induct:
  assumes "P m" and "\<And>m1 row. P m1 \<Longrightarrow> P (restart_task x row m1)"
  shows "P (fold (restart_task x) rows m)"
  using assms(1) by (induction rows arbitrary: m) (auto intro: assms(2))

lemma init_induct:
  assumes "P m" and "\<And>m1 row. P m1 \<Longrightarrow> P (restart_task x row m1)"
  shows "P (snd (seaf_clone_manager_init x m))"
  using assms fold_restart_induct [of P m x]
  by (auto simp: seaf_clone_manager_init_def split: option.splits)



lemma index_files_job_state: "state (fst (snd (index_files_job x tm))) = state (fst tm)"
  by (cases tm) (auto simp: index_files_job_def split: prod.splits)

lemma index_files_done_cancel_pending:
  assumes "state (fst tm) = CLONE_STATE_CANCEL_PENDING"
  shows "state (fst (index_files_done x b tm)) = (if b then CLONE_STATE_CANCELED else CLONE_STATE_ERROR)"
  using assms
  by (simp add: index_files_done_def state_transition_state state_transition_to_error)

lemma merge_job_done_cancel_pending:
  assumes "state (fst tm) = CLONE_STATE_CANCEL_PENDING"
  shows "merge_job_done x repo b tm
           = Inr (if b
                  then transition_state x CLONE_STATE_CANCELED
                         (fst tm, log_call (Set_repo_worktree (r_id repo) (worktree (fst tm))) (snd tm))
                  else transition_to_error x CLONE_ERROR_MERGE tm)"
  using assms by (cases tm) (simp add: merge_job_done_def Let_def)

lemma step_index_files_finished:
  assumes "step x (Index_files_finished key) m = Inr m'"
  shows "\<exists>task. map_of (tasks m) key = Some task \<and>
           m' = store_task key (index_files_done x (fst (index_files_job x (task, m)))
                                  (snd (index_files_job x (task, m))))"
  using assms by (auto simp: step_def split: option.splits prod.splits)

lemma step_merge_job_finished:
  assumes "step x (Merge_job_finished key repo) m = Inr m'"
  shows "\<exists>task tm'. map_of (tasks m) key = Some task \<and>
           merge_job_done x repo (fst (merge_job x repo False (task, m)))
             (snd (merge_job x repo False (task, m))) = Inr tm' \<and>
           m' = store_task key tm'"
  using assms by (auto simp: step_def split: option.splits prod.splits sum.splits)

lemma cancel_task_no_op:
  assumes "map_of (tasks m) key = Some t"
    and "terminal (state t) \<or> state t = CLONE_STATE_CANCEL_PENDING"
  shows "snd (seaf_clone_manager_cancel_task x m key) = m"
  using assms
  by (auto simp: seaf_clone_manager_cancel_task_def terminal_def)

lemma pulse_other:
  assumes "map_of (tasks m) rid = Some t" and "state t \<noteq> CLONE_STATE_CONNECT"
  shows "map_of (tasks (check_connect_pulse x m)) rid = Some t"
proof (rule pulse_induct)
  show "map_of (tasks m) rid = Some t" by (rule assms(1))
next
  fix m1 :: SeafCloneManager and key task
  assume "map_of (tasks m1) rid = Some t" and "map_of (tasks m1) key = Some task"
    and "state task = CLONE_STATE_CONNECT"
  then show "map_of (tasks (store_task key (continue_task_when_peer_connected x (task, m1)))) rid
             = Some t"
    using assms(2) by (auto simp: map_of_store_task' tasks_continue)
qed

lemma error_transition_to_error: "error (fst (transition_to_error x e tm)) = e"
  by (cases tm) (simp add: transition_to_error_def)

lemma pulse_absent:
  assumes "map_of (tasks m) rid = None"
  shows "map_of (tasks (check_connect_pulse x m)) rid = None"
proof (rule pulse_induct)
  show "map_of (tasks m) rid = None" by (rule assms)
next
  fix m1 :: SeafCloneManager and key task
  assume "map_of (tasks m1) rid = None" and "map_of (tasks m1) key = Some task"
  then show "map_of (tasks (store_task key (continue_task_when_peer_connected x (task, m1)))) rid
             = None"
    by (auto simp: map_of_store_task' tasks_continue)
qed

lemma step_absent:
  assumes n: "map_of (tasks m) rid = None" and a: "\<not> admits x ev m rid"
    and s: "step x ev m = Inr m'"
  shows "map_of (tasks m') rid = None"
proof (cases ev)
  case (Add_task r pid rname tok pw w addr port mail)
  obtain res m2 where ad: "seaf_clone_manager_add_task x m r pid rname tok pw w addr port mail = (res, m2)"
    by (cases "seaf_clone_manager_add_task x m r pid rname tok pw w addr port mail")
  have m': "m' = m2" using s Add_task ad
    by (auto simp: step_def split: sum.splits failure.splits)
  show ?thesis
    using add_task_tasks [OF ad] n m' a Add_task ad
    by (auto simp: update_conv' admits_def split: if_splits)
next
  case (Cancel_task key)
  then have m': "m' = snd (seaf_clone_manager_cancel_task x m key)"
    using s by (simp add: step_def)
  show ?thesis
  proof (cases "map_of (tasks m') rid")
    case None
    then show ?thesis .
  next
    case (Some t')
    then show ?thesis using cancel_task_after [of x m key rid t'] n m' by auto
  qed
next
  case (Remove_task key)
  then have m': "m' = snd (seaf_clone_manager_remove_task x m key)"
    using s by (simp add: step_def)
  show ?thesis
  proof (cases "map_of (tasks m') rid")
    case None
    then show ?thesis .
  next
    case (Some t')
    then show ?thesis using remove_task_after [of x m key rid t'] n m' by auto
  qed
next
  case Connect_pulse
  then have "m' = check_connect_pulse x m" using s by (simp add: step_def)
  then show ?thesis using pulse_absent [OF n] by simp
next
  case (Index_files_finished key)
  show ?thesis
    using step_index_files_finished [OF s [unfolded Index_files_finished]] n
    by (auto simp: map_of_store_task' tasks_handlers)
next
  case (Merge_job_finished key repo)
  show ?thesis
    using step_merge_job_finished [OF s [unfolded Merge_job_finished]] n
    by (auto simp: map_of_store_task' tasks_handlers dest!: tasks_merge_job_done)
next
  case (Repo_fetched tx_task)
  show ?thesis
    using s n Repo_fetched
    by (auto simp: step_def on_repo_fetched_def map_of_store_task' tasks_handlers tasks_log_call
        split: option.splits if_splits)
next
  case (Checkout_done b key)
  show ?thesis
    using s n Checkout_done
    by (auto simp: step_def on_checkout_done_def map_of_store_task' tasks_handlers
        split: option.splits if_splits)
qed


lemma step_terminal_stays:
  assumes t: "map_of (tasks m) rid = Some task" and c: "terminal (state task)"
    and e: "expected ev m" and a: "\<not> admits x ev m rid"
    and s: "step x ev m = Inr m'" and t': "map_of (tasks m') rid = Some task'"
  shows "task' = task"
proof (cases ev)
  case (Add_task r pid rname tok pw w addr port mail)
  obtain res m2 where ad: "seaf_clone_manager_add_task x m r pid rname tok pw w addr port mail = (res, m2)"
    by (cases "seaf_clone_manager_add_task x m r pid rname tok pw w addr port mail")
  have m': "m' = m2" using s Add_task ad
    by (auto simp: step_def split: sum.splits failure.splits)
  show ?thesis
    using add_task_tasks [OF ad] t t' m' a Add_task ad
    by (auto simp: update_conv' admits_def split: if_splits)
next
  case (Cancel_task key)
  then have m': "m' = snd (seaf_clone_manager_cancel_task x m key)"
    using s by (simp add: step_def)
  show ?thesis
  proof (cases "key = rid")
    case True
    then have "m' = m" using m' cancel_task_no_op [of m rid task x] t c by simp
    then show ?thesis using t t' by simp
  next
    case False
    then show ?thesis using cancel_task_after [of x m key rid task'] t t' m' by auto
  qed
next
  case (Remove_task key)
  then have "m' = snd (seaf_clone_manager_remove_task x m key)"
    using s by (simp add: step_def)
  then show ?thesis using remove_task_after [of x m key rid task'] t t' by auto
next
  case Connect_pulse
  have "state task \<noteq> CLONE_STATE_CONNECT" using c by (auto simp: terminal_def)
  moreover have "m' = check_connect_pulse x m" using s Connect_pulse by (simp add: step_def)
  ultimately show ?thesis using pulse_other [OF t, of x] t' by simp
next
  case (Index_files_finished key)
  then have ne: "key \<noteq> rid" using e t c by (auto simp: expected_def task_in_def terminal_def)
  show ?thesis
    using step_index_files_finished [OF s [unfolded Index_files_finished]] t t' ne
    by (auto simp: map_of_store_task' tasks_handlers)
next
  case (Merge_job_finished key repo)
  then have ne: "key \<noteq> rid" using e t c by (auto simp: expected_def task_in_def terminal_def)
  show ?thesis
    using step_merge_job_finished [OF s [unfolded Merge_job_finished]] t t' ne
    by (auto simp: map_of_store_task' tasks_handlers dest!: tasks_merge_job_done)
next
  case (Repo_fetched tx_task)
  then have ne: "t_is_clone tx_task \<Longrightarrow> t_repo_id tx_task \<noteq> rid"
    using e t c by (auto simp: expected_def task_in_def terminal_def)
  show ?thesis
    using s t t' ne Repo_fetched
    by (auto simp: step_def on_repo_fetched_def map_of_store_task' tasks_handlers
        split: option.splits if_splits)
next
  case (Checkout_done b key)
  then have ne: "key \<noteq> rid" using e t c by (auto simp: expected_def task_in_def terminal_def)
  show ?thesis
    using s t t' ne Checkout_done
    by (auto simp: step_def on_checkout_done_def map_of_store_task' tasks_handlers
        split: option.splits if_splits)
qed

text \<open>What a completion does to a task that waits in CANCEL_PENDING.\<close>

lemma index_finished_cancel_pending:
  assumes t: "map_of (tasks m) rid = Some task" and cp: "state task = CLONE_STATE_CANCEL_PENDING"
    and s: "step x (Index_files_finished rid) m = Inr m'"
  shows "\<exists>task'. map_of (tasks m') rid = Some task' \<and>
           (if fst (index_files_job x (task, m)) then state task' = CLONE_STATE_CANCELED
            else state task' = CLONE_STATE_ERROR \<and> error task' = CLONE_ERROR_INDEX)"
proof -
  let ?j = "index_files_job x (task, m)"
  have m': "m' = store_task rid (index_files_done x (fst ?j) (snd ?j))"
    using step_index_files_finished [OF s] t by auto
  have st: "state (fst (snd ?j)) = CLONE_STATE_CANCEL_PENDING"
    using cp by (simp add: index_files_job_state)
  have "map_of (tasks m') rid = Some (fst (index_files_done x (fst ?j) (snd ?j)))"
    unfolding m' by (simp add: map_of_store_task')
  moreover have "state (fst (index_files_done x (fst ?j) (snd ?j)))
                   = (if fst ?j then CLONE_STATE_CANCELED else CLONE_STATE_ERROR)"
    by (rule index_files_done_cancel_pending [OF st])
  moreover have "error (fst (index_files_done x (fst ?j) (snd ?j))) = CLONE_ERROR_INDEX"
    if "\<not> fst ?j"
    using that by (simp add: index_files_done_def error_transition_to_error)
  ultimately show ?thesis by auto
qed

lemma merge_finished_cancel_pending:
  assumes t: "map_of (tasks m) rid = Some task" and cp: "state task = CLONE_STATE_CANCEL_PENDING"
    and s: "step x (Merge_job_finished rid repo) m = Inr m'"
  shows "\<exists>task'. map_of (tasks m') rid = Some task' \<and>
           (if fst (merge_job x repo False (task, m)) then state task' = CLONE_STATE_CANCELED
            else state task' = CLONE_STATE_ERROR \<and> error task' = CLONE_ERROR_MERGE)"
proof -
  let ?j = "merge_job x repo False (task, m)"
  obtain tm' where d: "merge_job_done x repo (fst ?j) (snd ?j) = Inr tm'"
    and m': "m' = store_task rid tm'"
    using step_merge_job_finished [OF s] t by auto
  have st: "state (fst (snd ?j)) = CLONE_STATE_CANCEL_PENDING"
    using cp by (simp add: merge_job_state)
  have "map_of (tasks m') rid = Some (fst tm')"
    unfolding m' by (simp add: map_of_store_task')
  moreover have "if fst ?j then state (fst tm') = CLONE_STATE_CANCELED
                 else state (fst tm') = CLONE_STATE_ERROR \<and> error (fst tm') = CLONE_ERROR_MERGE"
    using d merge_job_done_cancel_pending [OF st, of x repo "fst ?j"]
    by (auto simp: state_transition_state state_transition_to_error error_transition_to_error
        split: if_splits)
  ultimately show ?thesis by auto
qed

lemma checkout_done_cancel_pending:
  assumes t: "map_of (tasks m) rid = Some task" and cp: "state task = CLONE_STATE_CANCEL_PENDING"
    and s: "step x (Checkout_done b rid) m = Inr m'"
  shows "\<exists>task'. map_of (tasks m') rid = Some task' \<and>
           (if b then state task' = CLONE_STATE_CANCELED
            else state task' = CLONE_STATE_ERROR \<and> error task' = CLONE_ERROR_CHECKOUT)"
  using s t cp
  by (auto simp: step_def on_checkout_done_def map_of_store_task' state_transition_state
      state_transition_to_error error_transition_to_error split: if_splits)

lemma repo_fetched_cancel_pending:
  assumes t: "map_of (tasks m) rid = Some task"
    and tx: "t_is_clone tx_task" "t_repo_id tx_task = rid"
    and s: "step x (Repo_fetched tx_task) m = Inr m'"
  shows "t_state tx_task = TASK_STATE_CANCELED \<Longrightarrow>
           \<exists>task'. map_of (tasks m') rid = Some task' \<and> state task' = CLONE_STATE_CANCELED"
    and "t_state tx_task = TASK_STATE_ERROR \<Longrightarrow>
           \<exists>task'. map_of (tasks m') rid = Some task' \<and> state task' = CLONE_STATE_ERROR \<and>
                   error task' = CLONE_ERROR_FETCH"
  using s t tx
  by (auto simp: step_def on_repo_fetched_def map_of_store_task' state_transition_state
      state_transition_to_error error_transition_to_error)

text \<open>One event on a task that waits in CANCEL_PENDING.\<close>

lemma step_cancel_pending:
  assumes t: "map_of (tasks m) rid = Some task" and cp: "state task = CLONE_STATE_CANCEL_PENDING"
    and a: "\<not> admits x ev m rid" and n: "\<not> resumes ev rid"
    and s: "step x ev m = Inr m'" and t': "map_of (tasks m') rid = Some task'"
  shows "state task' = CLONE_STATE_CANCEL_PENDING \<or> state task' = CLONE_STATE_CANCELED \<or>
         (state task' = CLONE_STATE_ERROR \<and> job_failed x ev m rid)"
proof (cases ev)
  case (Add_task r pid rname tok pw w addr port mail)
  obtain res m2 where ad: "seaf_clone_manager_add_task x m r pid rname tok pw w addr port mail = (res, m2)"
    by (cases "seaf_clone_manager_add_task x m r pid rname tok pw w addr port mail")
  have m': "m' = m2" using s Add_task ad
    by (auto simp: step_def split: sum.splits failure.splits)
  have "task' = task"
    using add_task_tasks [OF ad] t t' m' a Add_task ad
    by (auto simp: update_conv' admits_def split: if_splits)
  then show ?thesis using cp by simp
next
  case (Cancel_task key)
  then have m': "m' = snd (seaf_clone_manager_cancel_task x m key)"
    using s by (simp add: step_def)
  have "task' = task"
  proof (cases "key = rid")
    case True
    then have "m' = m" using m' cancel_task_no_op [of m rid task x] t cp by simp
    then show ?thesis using t t' by simp
  next
    case False
    then show ?thesis using cancel_task_after [of x m key rid task'] t t' m' by auto
  qed
  then show ?thesis using cp by simp
next
  case (Remove_task key)
  then have "m' = snd (seaf_clone_manager_remove_task x m key)"
    using s by (simp add: step_def)
  then have "task' = task" using remove_task_after [of x m key rid task'] t t' by auto
  then show ?thesis using cp by simp
next
  case Connect_pulse
  have "state task \<noteq> CLONE_STATE_CONNECT" using cp by simp
  moreover have "m' = check_connect_pulse x m" using s Connect_pulse by (simp add: step_def)
  ultimately have "task' = task" using pulse_other [OF t, of x] t' by simp
  then show ?thesis using cp by simp
next
  case (Index_files_finished key)
  show ?thesis
  proof (cases "key = rid")
    case True
    then show ?thesis
      using index_finished_cancel_pending [OF t cp, of x m'] s t t' Index_files_finished
      by (auto simp: job_failed_def split: if_splits)
  next
    case False
    then have "task' = task"
      using step_index_files_finished [OF s [unfolded Index_files_finished]] t t'
      by (auto simp: map_of_store_task' tasks_handlers)
    then show ?thesis using cp by simp
  qed
next
  case (Merge_job_finished key repo)
  show ?thesis
  proof (cases "key = rid")
    case True
    then show ?thesis
      using merge_finished_cancel_pending [OF t cp, of x repo m'] s t t' Merge_job_finished
      by (auto simp: job_failed_def split: if_splits)
  next
    case False
    then have "task' = task"
      using step_merge_job_finished [OF s [unfolded Merge_job_finished]] t t'
      by (auto simp: map_of_store_task' tasks_handlers dest!: tasks_merge_job_done)
    then show ?thesis using cp by simp
  qed
next
  case (Repo_fetched tx_task)
  show ?thesis
  proof (cases "t_is_clone tx_task \<and> t_repo_id tx_task = rid")
    case True
    then have "t_state tx_task = TASK_STATE_CANCELED \<or> t_state tx_task = TASK_STATE_ERROR"
      using n Repo_fetched by (auto simp: resumes_def)
    then show ?thesis
      using repo_fetched_cancel_pending [OF t _ _ s [unfolded Repo_fetched]] True t' Repo_fetched
      by (auto simp: job_failed_def)
  next
    case False
    then have "task' = task"
      using s t t' Repo_fetched
      by (auto simp: step_def on_repo_fetched_def map_of_store_task' tasks_handlers tasks_log_call
          split: option.splits if_splits)
    then show ?thesis using cp by simp
  qed
next
  case (Checkout_done b key)
  show ?thesis
  proof (cases "key = rid")
    case True
    then show ?thesis
      using checkout_done_cancel_pending [OF t cp, of x b m'] s t' Checkout_done
      by (auto simp: job_failed_def split: if_splits)
  next
    case False
    then have "task' = task"
      using s t t' Checkout_done
      by (auto simp: step_def on_checkout_done_def map_of_store_task' tasks_handlers
          split: option.splits if_splits)
    then show ?thesis using cp by simp
  qed
qed


text \<open>Along a run.\<close>

lemma step_cancellation:
  assumes q: "map_of (tasks m) rid = None \<or>
              (\<exists>task. map_of (tasks m) rid = Some task \<and>
                 (state task = CLONE_STATE_CANCEL_PENDING \<or> state task = CLONE_STATE_CANCELED \<or>
                  state task = CLONE_STATE_ERROR))"
    and e: "expected ev m" and a: "\<not> admits x ev m rid" and n: "\<not> resumes ev rid"
    and s: "step x ev m = Inr m1"
  shows "map_of (tasks m1) rid = None \<or>
         (\<exists>task1. map_of (tasks m1) rid = Some task1 \<and>
            (state task1 = CLONE_STATE_CANCEL_PENDING \<or> state task1 = CLONE_STATE_CANCELED \<or>
             (state task1 = CLONE_STATE_ERROR \<and>
              ((\<exists>task. map_of (tasks m) rid = Some task \<and> state task = CLONE_STATE_ERROR) \<or>
               job_failed x ev m rid))))"
proof (cases "map_of (tasks m1) rid")
  case None
  then show ?thesis by simp
next
  case (Some task1)
  have "map_of (tasks m) rid \<noteq> None"
    using step_absent [OF _ a s] Some by auto
  then obtain task where t: "map_of (tasks m) rid = Some task"
    and st: "state task = CLONE_STATE_CANCEL_PENDING \<or> state task = CLONE_STATE_CANCELED \<or>
             state task = CLONE_STATE_ERROR"
    using q by auto
  show ?thesis
  proof (cases "state task = CLONE_STATE_CANCEL_PENDING")
    case True
    then show ?thesis
      using step_cancel_pending [OF t True a n s Some] Some by auto
  next
    case False
    then have fin: "terminal (state task)" using st by (auto simp: terminal_def)
    have "task1 = task"
      by (rule step_terminal_stays [OF t fin e a s Some])
    then show ?thesis using Some t st False by auto
  qed
qed

lemma run_cancellation:
  assumes "map_of (tasks m) rid = None \<or>
           (\<exists>task. map_of (tasks m) rid = Some task \<and>
              (state task = CLONE_STATE_CANCEL_PENDING \<or> state task = CLONE_STATE_CANCELED \<or>
               state task = CLONE_STATE_ERROR))"
    and "all_expected evs m" and "undisturbed rid evs m" and "run evs m = Inr m'"
  shows "map_of (tasks m') rid = None \<or>
         (\<exists>task'. map_of (tasks m') rid = Some task' \<and>
            (state task' = CLONE_STATE_CANCEL_PENDING \<or> state task' = CLONE_STATE_CANCELED \<or>
             (state task' = CLONE_STATE_ERROR \<and>
              ((\<exists>task. map_of (tasks m) rid = Some task \<and> state task = CLONE_STATE_ERROR) \<or>
               job_fails_in rid evs m))))"
  using assms
proof (induction evs arbitrary: m)
  case Nil
  then show ?case by auto
next
  case (Cons p evs)
  obtain x ev where p: "p = (x, ev)" by (cases p)
  obtain m1 where s: "step x ev m = Inr m1"
    using Cons.prems(4) p by (auto split: sum.splits)
  have e: "expected ev m" and ae: "all_expected evs m1"
    using Cons.prems(2) p s by auto
  have a: "\<not> admits x ev m rid" and n: "\<not> resumes ev rid" and u: "undisturbed rid evs m1"
    using Cons.prems(3) p s by auto
  have r: "run evs m1 = Inr m'"
    using Cons.prems(4) p s by simp
  note one = step_cancellation [OF Cons.prems(1) e a n s]
  have q1: "map_of (tasks m1) rid = None \<or>
            (\<exists>task. map_of (tasks m1) rid = Some task \<and>
               (state task = CLONE_STATE_CANCEL_PENDING \<or> state task = CLONE_STATE_CANCELED \<or>
                state task = CLONE_STATE_ERROR))"
    using one by auto
  have f: "job_fails_in rid (p # evs) m = (job_failed x ev m rid \<or> job_fails_in rid evs m1)"
    using p s by simp
  have prev: "(\<exists>task. map_of (tasks m) rid = Some task \<and> state task = CLONE_STATE_ERROR) \<or>
              job_failed x ev m rid"
    if "map_of (tasks m1) rid = Some task1" "state task1 = CLONE_STATE_ERROR" for task1
    using one that by auto
  show ?case
    using Cons.IH [OF q1 ae u r] prev unfolding f by blast
qed

lemma run_terminal_stays:
  assumes "map_of (tasks m) rid = None \<or> map_of (tasks m) rid = Some task"
    and "terminal (state task)"
    and "all_expected evs m" and "undisturbed rid evs m" and "run evs m = Inr m'"
  shows "map_of (tasks m') rid = None \<or> map_of (tasks m') rid = Some task"
  using assms
proof (induction evs arbitrary: m)
  case Nil
  then show ?case by auto
next
  case (Cons p evs)
  obtain x ev where p: "p = (x, ev)" by (cases p)
  obtain m1 where s: "step x ev m = Inr m1"
    using Cons.prems(5) p by (auto split: sum.splits)
  have e: "expected ev m" and ae: "all_expected evs m1"
    using Cons.prems(3) p s by auto
  have a: "\<not> admits x ev m rid" and u: "undisturbed rid evs m1"
    using Cons.prems(4) p s by auto
  have r: "run evs m1 = Inr m'"
    using Cons.prems(5) p s by simp
  have q1: "map_of (tasks m1) rid = None \<or> map_of (tasks m1) rid = Some task"
  proof (cases "map_of (tasks m1) rid")
    case None
    then show ?thesis by simp
  next
    case (Some task1)
    have "map_of (tasks m) rid \<noteq> None"
      using step_absent [OF _ a s] Some by auto
    then have t: "map_of (tasks m) rid = Some task"
      using Cons.prems(1) by auto
    show ?thesis
      using step_terminal_stays [OF t Cons.prems(2) e a s Some] Some by simp
  qed
  show ?case
    by (rule Cons.IH [OF q1 Cons.prems(2) ae u r])
qed

subsection \<open>Cancellation\<close>

text \<open>
  C1, amended. Let a task be in CANCEL_PENDING or CANCELED, and let a run of expected events
  follow in which no new task is admitted for the repo and no transfer of the repo completes
  in a state other than CANCELED and ERROR (what \<open>on_repo_fetched\<close> does with such a
  transfer while the task waits is left out). Then the task never gets to DONE: at the end
  of the run it has been removed from the table, or it is in CANCEL_PENDING or in CANCELED,
  or it is in ERROR and some completion of the run was that of a failed job or transfer. A
  task that was in CANCELED is unchanged or removed. No single event, whatever it is, takes
  the task to DONE. In CANCEL_PENDING, the completion of the index job, of the merge job or
  of the checkout moves the task to CANCELED when the job succeeded, and to ERROR with the
  error INDEX, MERGE or CHECKOUT when the job failed (the handlers test the job's failure
  before they test CANCEL_PENDING); the completion of the transfer moves it to CANCELED when
  the transfer was cancelled and to ERROR with the error FETCH when it failed.
\<close>

theorem cancellation_outcomes:
  assumes t: "map_of (tasks m) rid = Some task"
    and c: "state task = CLONE_STATE_CANCEL_PENDING \<or> state task = CLONE_STATE_CANCELED"
  shows "(all_expected evs m \<and> undisturbed rid evs m \<and> run evs m = Inr m' \<longrightarrow>
            (map_of (tasks m') rid = None \<or>
             (\<exists>task'. map_of (tasks m') rid = Some task' \<and>
                (state task' = CLONE_STATE_CANCEL_PENDING \<or> state task' = CLONE_STATE_CANCELED \<or>
                 (state task' = CLONE_STATE_ERROR \<and> job_fails_in rid evs m)) \<and>
                (state task = CLONE_STATE_CANCELED \<longrightarrow> task' = task)))) \<and>
         (step x ev m = Inr m1 \<and> map_of (tasks m1) rid = Some task1 \<longrightarrow>
            state task1 \<noteq> CLONE_STATE_DONE) \<and>
         (state task = CLONE_STATE_CANCEL_PENDING \<and> step x ev m = Inr m1 \<longrightarrow>
            (ev = Index_files_finished rid \<longrightarrow>
               (\<exists>task'. map_of (tasks m1) rid = Some task' \<and>
                  (if fst (index_files_job x (task, m)) then state task' = CLONE_STATE_CANCELED
                   else state task' = CLONE_STATE_ERROR \<and> error task' = CLONE_ERROR_INDEX))) \<and>
            (\<forall>repo. ev = Merge_job_finished rid repo \<longrightarrow>
               (\<exists>task'. map_of (tasks m1) rid = Some task' \<and>
                  (if fst (merge_job x repo False (task, m)) then state task' = CLONE_STATE_CANCELED
                   else state task' = CLONE_STATE_ERROR \<and> error task' = CLONE_ERROR_MERGE))) \<and>
            (\<forall>b. ev = Checkout_done b rid \<longrightarrow>
               (\<exists>task'. map_of (tasks m1) rid = Some task' \<and>
                  (if b then state task' = CLONE_STATE_CANCELED
                   else state task' = CLONE_STATE_ERROR \<and> error task' = CLONE_ERROR_CHECKOUT))) \<and>
            (\<forall>tx_task. ev = Repo_fetched tx_task \<and> t_is_clone tx_task \<and>
                        t_repo_id tx_task = rid \<longrightarrow>
               (t_state tx_task = TASK_STATE_CANCELED \<longrightarrow>
                  (\<exists>task'. map_of (tasks m1) rid = Some task' \<and>
                           state task' = CLONE_STATE_CANCELED)) \<and>
               (t_state tx_task = TASK_STATE_ERROR \<longrightarrow>
                  (\<exists>task'. map_of (tasks m1) rid = Some task' \<and>
                           state task' = CLONE_STATE_ERROR \<and> error task' = CLONE_ERROR_FETCH))))"
proof (intro conjI impI allI)
  assume h: "all_expected evs m \<and> undisturbed rid evs m \<and> run evs m = Inr m'"
  have q: "map_of (tasks m) rid = None \<or>
           (\<exists>task. map_of (tasks m) rid = Some task \<and>
              (state task = CLONE_STATE_CANCEL_PENDING \<or> state task = CLONE_STATE_CANCELED \<or>
               state task = CLONE_STATE_ERROR))"
    using t c by auto
  have no_error: "\<not> (\<exists>task. map_of (tasks m) rid = Some task \<and> state task = CLONE_STATE_ERROR)"
    using t c by auto
  have one: "map_of (tasks m') rid = None \<or>
         (\<exists>task'. map_of (tasks m') rid = Some task' \<and>
            (state task' = CLONE_STATE_CANCEL_PENDING \<or> state task' = CLONE_STATE_CANCELED \<or>
             (state task' = CLONE_STATE_ERROR \<and> job_fails_in rid evs m)))"
    using run_cancellation [OF q, of evs m'] h no_error by blast
  have two: "map_of (tasks m') rid = None \<or> map_of (tasks m') rid = Some task"
    if "state task = CLONE_STATE_CANCELED"
    using run_terminal_stays [of m rid task evs m'] t that h by (simp add: terminal_def)
  show "map_of (tasks m') rid = None \<or>
        (\<exists>task'. map_of (tasks m') rid = Some task' \<and>
           (state task' = CLONE_STATE_CANCEL_PENDING \<or> state task' = CLONE_STATE_CANCELED \<or>
            (state task' = CLONE_STATE_ERROR \<and> job_fails_in rid evs m)) \<and>
           (state task = CLONE_STATE_CANCELED \<longrightarrow> task' = task))"
    using one two by auto
next
  assume "step x ev m = Inr m1 \<and> map_of (tasks m1) rid = Some task1"
  then show "state task1 \<noteq> CLONE_STATE_DONE"
    using step_done [of x ev m m1 rid task1] t c by auto
next
  assume "state task = CLONE_STATE_CANCEL_PENDING \<and> step x ev m = Inr m1"
    and "ev = Index_files_finished rid"
  then show "\<exists>task'. map_of (tasks m1) rid = Some task' \<and>
               (if fst (index_files_job x (task, m)) then state task' = CLONE_STATE_CANCELED
                else state task' = CLONE_STATE_ERROR \<and> error task' = CLONE_ERROR_INDEX)"
    using index_finished_cancel_pending [OF t, of x m1] by blast
next
  fix repo
  assume "state task = CLONE_STATE_CANCEL_PENDING \<and> step x ev m = Inr m1"
    and "ev = Merge_job_finished rid repo"
  then show "\<exists>task'. map_of (tasks m1) rid = Some task' \<and>
               (if fst (merge_job x repo False (task, m)) then state task' = CLONE_STATE_CANCELED
                else state task' = CLONE_STATE_ERROR \<and> error task' = CLONE_ERROR_MERGE)"
    using merge_finished_cancel_pending [OF t, of x repo m1] by blast
next
  fix b
  assume "state task = CLONE_STATE_CANCEL_PENDING \<and> step x ev m = Inr m1"
    and "ev = Checkout_done b rid"
  then show "\<exists>task'. map_of (tasks m1) rid = Some task' \<and>
               (if b then state task' = CLONE_STATE_CANCELED
                else state task' = CLONE_STATE_ERROR \<and> error task' = CLONE_ERROR_CHECKOUT)"
    using checkout_done_cancel_pending [OF t, of x b m1] by blast
next
  fix tx_task
  assume "state task = CLONE_STATE_CANCEL_PENDING \<and> step x ev m = Inr m1"
    and "ev = Repo_fetched tx_task \<and> t_is_clone tx_task \<and> t_repo_id tx_task = rid"
    and "t_state tx_task = TASK_STATE_CANCELED"
  then show "\<exists>task'. map_of (tasks m1) rid = Some task' \<and> state task' = CLONE_STATE_CANCELED"
    using repo_fetched_cancel_pending(1) [OF t, of tx_task x m1] by blast
next
  fix tx_task
  assume "state task = CLONE_STATE_CANCEL_PENDING \<and> step x ev m = Inr m1"
    and "ev = Repo_fetched tx_task \<and> t_is_clone tx_task \<and> t_repo_id tx_task = rid"
    and "t_state tx_task = TASK_STATE_ERROR"
  then show "\<exists>task'. map_of (tasks m1) rid = Some task' \<and> state task' = CLONE_STATE_ERROR \<and>
                     error task' = CLONE_ERROR_FETCH"
    using repo_fetched_cancel_pending(2) [OF t, of tx_task x m1] by blast
qed


theorem cancellation_outcomes_witness:
  "map_of (tasks (example_mgr CLONE_STATE_CANCEL_PENDING)) example_id
     = Some (example_task CLONE_STATE_CANCEL_PENDING) \<and>
   state (example_task CLONE_STATE_CANCEL_PENDING) = CLONE_STATE_CANCEL_PENDING \<and>
   all_expected [(example_extern, Index_files_finished example_id),
                 (example_extern, Cancel_task example_id)]
     (example_mgr CLONE_STATE_CANCEL_PENDING) \<and>
   undisturbed example_id [(example_extern, Index_files_finished example_id),
                           (example_extern, Cancel_task example_id)]
     (example_mgr CLONE_STATE_CANCEL_PENDING) \<and>
   (\<exists>m' task'. run [(example_extern, Index_files_finished example_id),
                     (example_extern, Cancel_task example_id)]
                  (example_mgr CLONE_STATE_CANCEL_PENDING) = Inr m' \<and>
               map_of (tasks m') example_id = Some task' \<and>
               (state task' = CLONE_STATE_CANCEL_PENDING \<or> state task' = CLONE_STATE_CANCELED)) \<and>
   all_expected [(example_extern, Checkout_done False example_id), (example_extern, Connect_pulse)]
     (example_mgr CLONE_STATE_CANCEL_PENDING) \<and>
   undisturbed example_id
     [(example_extern, Checkout_done False example_id), (example_extern, Connect_pulse)]
     (example_mgr CLONE_STATE_CANCEL_PENDING) \<and>
   (\<exists>m' task'. run [(example_extern, Checkout_done False example_id),
                     (example_extern, Connect_pulse)]
                  (example_mgr CLONE_STATE_CANCEL_PENDING) = Inr m' \<and>
               map_of (tasks m') example_id = Some task' \<and>
               state task' = CLONE_STATE_ERROR \<and>
               job_fails_in example_id
                 [(example_extern, Checkout_done False example_id), (example_extern, Connect_pulse)]
                 (example_mgr CLONE_STATE_CANCEL_PENDING)) \<and>
   map_of (tasks (example_mgr CLONE_STATE_CANCELED)) example_id
     = Some (example_task CLONE_STATE_CANCELED) \<and>
   state (example_task CLONE_STATE_CANCELED) = CLONE_STATE_CANCELED \<and>
   all_expected [(example_extern, Connect_pulse), (example_extern, Cancel_task example_id)]
     (example_mgr CLONE_STATE_CANCELED) \<and>
   undisturbed example_id [(example_extern, Connect_pulse), (example_extern, Cancel_task example_id)]
     (example_mgr CLONE_STATE_CANCELED) \<and>
   (\<exists>m'. run [(example_extern, Connect_pulse), (example_extern, Cancel_task example_id)]
            (example_mgr CLONE_STATE_CANCELED) = Inr m' \<and>
         map_of (tasks m') example_id = Some (example_task CLONE_STATE_CANCELED)) \<and>
   fst (index_files_job example_extern
          (example_task CLONE_STATE_CANCEL_PENDING, example_mgr CLONE_STATE_CANCEL_PENDING)) \<and>
   (\<exists>m1 task'. step example_extern (Index_files_finished example_id)
                  (example_mgr CLONE_STATE_CANCEL_PENDING) = Inr m1 \<and>
               map_of (tasks m1) example_id = Some task' \<and>
               state task' = CLONE_STATE_CANCELED) \<and>
   (\<exists>m1 task'. step example_extern (Checkout_done False example_id)
                  (example_mgr CLONE_STATE_CANCEL_PENDING) = Inr m1 \<and>
               map_of (tasks m1) example_id = Some task' \<and>
               state task' = CLONE_STATE_ERROR \<and> error task' = CLONE_ERROR_CHECKOUT) \<and>
   (\<exists>m1 task'. step (example_extern\<lparr>seaf_branch_manager_get_branch := (\<lambda>rid name. None)\<rparr>)
                  (Merge_job_finished example_id (plain_repo None))
                  (example_mgr CLONE_STATE_CANCEL_PENDING) = Inr m1 \<and>
               map_of (tasks m1) example_id = Some task' \<and>
               state task' = CLONE_STATE_ERROR \<and> error task' = CLONE_ERROR_MERGE) \<and>
   (\<exists>m1 task'. step example_extern
                  (Repo_fetched \<lparr>t_is_clone = True, t_repo_id = example_id,
                                 t_state = TASK_STATE_ERROR\<rparr>)
                  (example_mgr CLONE_STATE_CANCEL_PENDING) = Inr m1 \<and>
               map_of (tasks m1) example_id = Some task' \<and>
               state task' = CLONE_STATE_ERROR \<and> error task' = CLONE_ERROR_FETCH)"
proof -
  let ?cp = "example_mgr CLONE_STATE_CANCEL_PENDING"
  let ?ca = "example_mgr CLONE_STATE_CANCELED"
  let ?evsA = "[(example_extern, Index_files_finished example_id),
                (example_extern, Cancel_task example_id)]"
  let ?evsB = "[(example_extern, Checkout_done False example_id), (example_extern, Connect_pulse)]"
  let ?evsC = "[(example_extern, Connect_pulse), (example_extern, Cancel_task example_id)]"
  let ?xm = "example_extern\<lparr>seaf_branch_manager_get_branch := (\<lambda>rid name. None)\<rparr>"
  let ?tx = "\<lparr>t_is_clone = True, t_repo_id = example_id, t_state = TASK_STATE_ERROR\<rparr>"
  have found: "map_of (tasks (example_mgr s)) example_id = Some (example_task s)" for s
    by (simp add: example_mgr_def)
  have st: "state (example_task s) = s" for s
    by (simp add: example_task_def)
  note main = cancellation_outcomes [OF found [of CLONE_STATE_CANCEL_PENDING]]
  note main' = cancellation_outcomes [OF found [of CLONE_STATE_CANCELED]]
  have eA: "all_expected ?evsA ?cp" by code_simp
  have uA: "undisturbed example_id ?evsA ?cp" by code_simp
  have nA: "\<not> job_fails_in example_id ?evsA ?cp" by code_simp
  have "case run ?evsA ?cp of Inl f \<Rightarrow> False | Inr m' \<Rightarrow> map_of (tasks m') example_id \<noteq> None"
    by code_simp
  then obtain mA where rA: "run ?evsA ?cp = Inr mA" and pA: "map_of (tasks mA) example_id \<noteq> None"
    by (auto split: sum.splits)
  have cA: "\<exists>task'. map_of (tasks mA) example_id = Some task' \<and>
              (state task' = CLONE_STATE_CANCEL_PENDING \<or> state task' = CLONE_STATE_CANCELED)"
    using main [where evs = ?evsA and m' = mA] st eA uA nA rA pA by auto
  have eB: "all_expected ?evsB ?cp" by code_simp
  have uB: "undisturbed example_id ?evsB ?cp" by code_simp
  have "case run ?evsB ?cp of Inl f \<Rightarrow> False | Inr m' \<Rightarrow> task_in m' example_id [CLONE_STATE_ERROR]"
    by code_simp
  then obtain mB tB where rB: "run ?evsB ?cp = Inr mB"
    and pB: "map_of (tasks mB) example_id = Some tB" and sB: "state tB = CLONE_STATE_ERROR"
    by (auto simp: task_in_def split: sum.splits option.splits)
  have cB: "job_fails_in example_id ?evsB ?cp"
    using main [where evs = ?evsB and m' = mB] st eB uB rB pB sB by auto
  have eC: "all_expected ?evsC ?ca" by code_simp
  have uC: "undisturbed example_id ?evsC ?ca" by code_simp
  have "case run ?evsC ?ca of Inl f \<Rightarrow> False | Inr m' \<Rightarrow> map_of (tasks m') example_id \<noteq> None"
    by code_simp
  then obtain mC where rC: "run ?evsC ?ca = Inr mC" and pC: "map_of (tasks mC) example_id \<noteq> None"
    by (auto split: sum.splits)
  have cC: "map_of (tasks mC) example_id = Some (example_task CLONE_STATE_CANCELED)"
    using main' [where evs = ?evsC and m' = mC] st eC uC rC pC by auto
  have ok: "fst (index_files_job example_extern (example_task CLONE_STATE_CANCEL_PENDING, ?cp))"
    by (simp add: index_files_job_def example_extern_def)
  have "case step example_extern (Index_files_finished example_id) ?cp of
          Inl f \<Rightarrow> False | Inr m' \<Rightarrow> True"
    by code_simp
  then obtain m1 where s1: "step example_extern (Index_files_finished example_id) ?cp = Inr m1"
    by (auto split: sum.splits)
  have c1: "\<exists>task'. map_of (tasks m1) example_id = Some task' \<and> state task' = CLONE_STATE_CANCELED"
    using main [where x = example_extern and ev = "Index_files_finished example_id" and ?m1.0 = m1
                  and evs = "[]" and m' = ?cp
                  and ?task1.0 = "example_task CLONE_STATE_CANCEL_PENDING"]
      st s1 ok by simp
  have "case step example_extern (Checkout_done False example_id) ?cp of
          Inl f \<Rightarrow> False | Inr m' \<Rightarrow> True"
    by code_simp
  then obtain m2 where s2: "step example_extern (Checkout_done False example_id) ?cp = Inr m2"
    by (auto split: sum.splits)
  have c2: "\<exists>task'. map_of (tasks m2) example_id = Some task' \<and> state task' = CLONE_STATE_ERROR \<and>
                    error task' = CLONE_ERROR_CHECKOUT"
    using main [where x = example_extern and ev = "Checkout_done False example_id" and ?m1.0 = m2
                  and evs = "[]" and m' = ?cp
                  and ?task1.0 = "example_task CLONE_STATE_CANCEL_PENDING"]
      st s2 by auto
  have nok: "\<not> fst (merge_job ?xm (plain_repo None) False
                      (example_task CLONE_STATE_CANCEL_PENDING, ?cp))"
    by code_simp
  have "case step ?xm (Merge_job_finished example_id (plain_repo None)) ?cp of
          Inl f \<Rightarrow> False | Inr m' \<Rightarrow> True"
    by code_simp
  then obtain m3 where s3: "step ?xm (Merge_job_finished example_id (plain_repo None)) ?cp = Inr m3"
    by (auto split: sum.splits)
  have c3: "\<exists>task'. map_of (tasks m3) example_id = Some task' \<and> state task' = CLONE_STATE_ERROR \<and>
                    error task' = CLONE_ERROR_MERGE"
    using main [where x = ?xm and ev = "Merge_job_finished example_id (plain_repo None)"
                  and ?m1.0 = m3
                  and evs = "[]" and m' = ?cp
                  and ?task1.0 = "example_task CLONE_STATE_CANCEL_PENDING"]
      st s3 nok
    by simp
  have "case step example_extern (Repo_fetched ?tx) ?cp of Inl f \<Rightarrow> False | Inr m' \<Rightarrow> True"
    by code_simp
  then obtain m4 where s4: "step example_extern (Repo_fetched ?tx) ?cp = Inr m4"
    by (auto split: sum.splits)
  have c4: "\<exists>task'. map_of (tasks m4) example_id = Some task' \<and> state task' = CLONE_STATE_ERROR \<and>
                    error task' = CLONE_ERROR_FETCH"
    using main [where x = example_extern and ev = "Repo_fetched ?tx" and ?m1.0 = m4
                  and evs = "[]" and m' = ?cp
                  and ?task1.0 = "example_task CLONE_STATE_CANCEL_PENDING"]
      st s4
    by simp
  show ?thesis
    using found st eA uA rA cA eB uB rB pB sB cB eC uC rC cC ok s1 c1 s2 c2 s3 c3 s4 c4
    by blast
qed

theorem cancel_then_index_failure_counterexample:
  "(case run [(extern_files, example_add_task), (extern_files, Cancel_task example_id)]
           (seaf_clone_manager_new []) of
      Inl f \<Rightarrow> False
    | Inr m \<Rightarrow> task_in m example_id [CLONE_STATE_CANCEL_PENDING]) \<and>
   (case run [(extern_files, example_add_task), (extern_files, Cancel_task example_id),
              (extern_files\<lparr>seaf_repo_index_worktree_files := (\<lambda>rid wt pw root. (- 1, root))\<rparr>,
               Index_files_finished example_id)]
           (seaf_clone_manager_new []) of
      Inl f \<Rightarrow> False
    | Inr m \<Rightarrow> task_in m example_id [CLONE_STATE_ERROR])"
  by code_simp

text \<open>
  Why the run must have no transfer that completes while the task waits:
  \<open>on_repo_fetched\<close>, unlike the three other completion handlers, does not test
  CANCEL_PENDING. A task cancelled in FETCH whose transfer then finishes goes on to the
  checkout, and from there to DONE.
\<close>

lemma cancel_then_fetched_goes_on:
  "(case run [(example_extern, example_add_task), (example_extern, Cancel_task example_id)]
           (seaf_clone_manager_new []) of
      Inl f \<Rightarrow> False
    | Inr m \<Rightarrow> task_in m example_id [CLONE_STATE_CANCEL_PENDING]) \<and>
   all_expected
     [(example_extern, example_add_task), (example_extern, Cancel_task example_id),
      (example_extern\<lparr>seaf_repo_manager_get_repo := (\<lambda>rid. Some (plain_repo None))\<rparr>,
       Repo_fetched \<lparr>t_is_clone = True, t_repo_id = example_id, t_state = TASK_STATE_FINISHED\<rparr>),
      (example_extern, Checkout_done True example_id)]
     (seaf_clone_manager_new []) \<and>
   (case run [(example_extern, example_add_task), (example_extern, Cancel_task example_id),
              (example_extern\<lparr>seaf_repo_manager_get_repo := (\<lambda>rid. Some (plain_repo None))\<rparr>,
               Repo_fetched \<lparr>t_is_clone = True, t_repo_id = example_id,
                             t_state = TASK_STATE_FINISHED\<rparr>),
              (example_extern, Checkout_done True example_id)]
           (seaf_clone_manager_new []) of
      Inl f \<Rightarrow> False
    | Inr m \<Rightarrow> task_in m example_id [CLONE_STATE_DONE])"
  by code_simp

text \<open>
  C8, amended. For a task in CANCEL_PENDING: when the index job succeeded,
  \<open>index_files_done\<close> moves the task to CANCELED, adds no transfer and calls nobody; when
  the checkout succeeded, \<open>on_checkout_done\<close> moves the task to CANCELED and calls nobody;
  when the merge job succeeded, \<open>merge_job_done\<close> first sets the worktree of the repo to
  the worktree of the task and then moves the task to CANCELED. When the job failed, the
  task goes to ERROR and nobody is called.
\<close>

theorem completion_in_cancel_pending:
  assumes "state task = CLONE_STATE_CANCEL_PENDING"
  shows "state (fst (index_files_done x True (task, m))) = CLONE_STATE_CANCELED \<and>
         tx_id (fst (index_files_done x True (task, m))) = tx_id task \<and>
         calls (snd (index_files_done x True (task, m))) = calls m \<and>
         state (fst (index_files_done x False (task, m))) = CLONE_STATE_ERROR \<and>
         calls (snd (index_files_done x False (task, m))) = calls m \<and>
         (\<exists>tm. merge_job_done x repo True (task, m) = Inr tm \<and>
               state (fst tm) = CLONE_STATE_CANCELED \<and>
               calls (snd tm) = calls m @ [Set_repo_worktree (r_id repo) (worktree task)]) \<and>
         (\<exists>tm. merge_job_done x repo False (task, m) = Inr tm \<and>
               state (fst tm) = CLONE_STATE_ERROR \<and> calls (snd tm) = calls m) \<and>
         (map_of (tasks m) rid = Some task \<longrightarrow>
            (\<exists>m' task'. on_checkout_done x True rid m = Inr m' \<and>
                        map_of (tasks m') rid = Some task' \<and>
                        state task' = CLONE_STATE_CANCELED \<and> calls m' = calls m) \<and>
            (\<exists>m' task'. on_checkout_done x False rid m = Inr m' \<and>
                        map_of (tasks m') rid = Some task' \<and>
                        state task' = CLONE_STATE_ERROR \<and> calls m' = calls m))"
  using assms
  by (simp add: index_files_done_def merge_job_done_def on_checkout_done_def
      transition_state_def transition_to_error_def remove_task_from_db_def log_call_def
      store_task_def update_conv' Let_def)

theorem completion_in_cancel_pending_witness:
  "state (example_task CLONE_STATE_CANCEL_PENDING) = CLONE_STATE_CANCEL_PENDING \<and>
   state (fst (index_files_done example_extern True
                 (example_task CLONE_STATE_CANCEL_PENDING, example_mgr CLONE_STATE_CANCEL_PENDING)))
     = CLONE_STATE_CANCELED \<and>
   (\<exists>tm. merge_job_done example_extern (plain_repo None) True
            (example_task CLONE_STATE_CANCEL_PENDING, example_mgr CLONE_STATE_CANCEL_PENDING)
          = Inr tm \<and>
          state (fst tm) = CLONE_STATE_CANCELED \<and>
          calls (snd tm) = [Set_repo_worktree example_id ''/home/u/foo'']) \<and>
   map_of (tasks (example_mgr CLONE_STATE_CANCEL_PENDING)) example_id
     = Some (example_task CLONE_STATE_CANCEL_PENDING) \<and>
   (\<exists>m' task'. on_checkout_done example_extern True example_id
                  (example_mgr CLONE_STATE_CANCEL_PENDING) = Inr m' \<and>
               map_of (tasks m') example_id = Some task' \<and>
               state task' = CLONE_STATE_CANCELED \<and> calls m' = [])"
proof -
  have st: "state (example_task CLONE_STATE_CANCEL_PENDING) = CLONE_STATE_CANCEL_PENDING"
    by (simp add: example_task_def)
  have found: "map_of (tasks (example_mgr CLONE_STATE_CANCEL_PENDING)) example_id
                 = Some (example_task CLONE_STATE_CANCEL_PENDING)"
    by (simp add: example_mgr_def)
  have c: "calls (example_mgr CLONE_STATE_CANCEL_PENDING) = []"
    by (simp add: example_mgr_def)
  have r: "r_id (plain_repo None) = example_id"
    and w: "worktree (example_task CLONE_STATE_CANCEL_PENDING) = ''/home/u/foo''"
    by (simp_all add: plain_repo_def example_task_def clone_task_new_def)
  show ?thesis
    using st found
      completion_in_cancel_pending [OF st, of example_extern
        "example_mgr CLONE_STATE_CANCEL_PENDING" "plain_repo None" example_id]
    by (simp add: c r w)
qed

theorem merge_done_in_cancel_pending_counterexample:
  "(case run [(extern_fetched, example_add_task), (extern_fetched, Cancel_task example_id)]
           (seaf_clone_manager_new []) of
      Inl f \<Rightarrow> False
    | Inr m \<Rightarrow> task_in m example_id [CLONE_STATE_CANCEL_PENDING] \<and>
               calls m = [Schedule_merge_job example_id]) \<and>
   (case run [(extern_fetched, example_add_task), (extern_fetched, Cancel_task example_id),
              (extern_fetched, Merge_job_finished example_id (plain_repo None))]
           (seaf_clone_manager_new []) of
      Inl f \<Rightarrow> False
    | Inr m \<Rightarrow> task_in m example_id [CLONE_STATE_CANCELED] \<and>
               last (calls m) = Set_repo_worktree example_id ''/home/u/foo'')"
  by code_simp

subsection \<open>How a task gets to DONE\<close>










subsection \<open>The table and the hash table\<close>























































subsection \<open>The transfer handle\<close>

lemma tx_transition_state: "tx_id (fst (transition_state x s tm)) = tx_id (fst tm)"
  by (cases tm) (simp add: transition_state_def Let_def)

lemma tx_transition_to_error: "tx_id (fst (transition_to_error x e tm)) = tx_id (fst tm)"
  by (cases tm) (simp add: transition_to_error_def)

lemma tx_index_files_job: "tx_id (fst (snd (index_files_job x tm))) = tx_id (fst tm)"
  by (cases tm) (auto simp: index_files_job_def split: prod.splits)

lemma tx_start_checkout: "tx_id (fst (start_checkout x repo tm)) = tx_id (fst tm)"
  by (cases tm) (auto simp: handler_defs Let_def split: prod.splits)

lemma tx_start_connect: "tx_id (fst (start_connect_task_relay x tm)) = tx_id (fst tm)"
  by (cases tm) (auto simp: handler_defs Let_def split: prod.splits)

lemma tx_merge_job_done:
  "merge_job_done x repo b tm = Inr tm' \<Longrightarrow>
   tx_id (fst tm') = tx_id (fst tm) \<and>
   state (fst tm') \<in> {CLONE_STATE_ERROR, CLONE_STATE_CANCELED, CLONE_STATE_DONE}"
  by (cases tm)
     (auto simp: merge_job_done_def Let_def tx_transition_state tx_transition_to_error
        state_transition_state state_transition_to_error split: if_splits)

lemma tx_start_index_or_transfer:
  "(state (fst (snd (start_index_or_transfer x tm))) = CLONE_STATE_INDEX \<and>
    tx_id (fst (snd (start_index_or_transfer x tm))) = tx_id (fst tm)) \<or>
   (state (fst (snd (start_index_or_transfer x tm))) = CLONE_STATE_FETCH \<and>
    tx_id (fst (snd (start_index_or_transfer x tm))) \<noteq> None) \<or>
   (state (fst (snd (start_index_or_transfer x tm))) = CLONE_STATE_ERROR \<and>
    tx_id (fst (snd (start_index_or_transfer x tm))) = None)"
  by (cases tm) (auto simp: handler_defs Let_def split: prod.splits)

lemma tx_index_files_done:
  "(tx_id (fst (index_files_done x b tm)) = tx_id (fst tm) \<and>
    state (fst (index_files_done x b tm)) \<in> {CLONE_STATE_ERROR, CLONE_STATE_CANCELED}) \<or>
   (state (fst tm) \<noteq> CLONE_STATE_CANCEL_PENDING \<and>
    ((state (fst (index_files_done x b tm)) = CLONE_STATE_FETCH \<and>
      tx_id (fst (index_files_done x b tm)) \<noteq> None) \<or>
     (state (fst (index_files_done x b tm)) = CLONE_STATE_ERROR \<and>
      tx_id (fst (index_files_done x b tm)) = None)))"
  by (cases tm) (auto simp: handler_defs Let_def split: prod.splits)

text \<open>A handler that leaves tx_id alone and the task in a state after FETCH.\<close>

lemma agrees_keep:
  assumes "tx_id_agrees t seen" and "tx_id t' = tx_id t"
    and "state t' \<in> {CLONE_STATE_CHECKOUT, CLONE_STATE_MERGE, CLONE_STATE_DONE, CLONE_STATE_ERROR,
                      CLONE_STATE_CANCEL_PENDING, CLONE_STATE_CANCELED}"
  shows "tx_id_agrees t' (seen \<or> state t' = CLONE_STATE_FETCH)"
  using assms by (auto simp: tx_id_agrees_def)

lemma agrees_same:
  assumes "tx_id_agrees t seen"
  shows "tx_id_agrees t (seen \<or> state t = CLONE_STATE_FETCH)"
  using assms by (auto simp: tx_id_agrees_def)

lemma task_in_fetch:
  "map_of (tasks m) rid = Some t \<Longrightarrow> task_in m rid [CLONE_STATE_FETCH] = (state t = CLONE_STATE_FETCH)"
  by (simp add: task_in_def)

text \<open>A task made by clone_task_new, after the first handler has run on it.\<close>

lemma fresh_agrees:
  assumes "tx_id t = None" and "state t = CLONE_STATE_INIT"
  shows "tx_id_agrees (fst (start_checkout x repo (t, m)))
           (state (fst (start_checkout x repo (t, m))) = CLONE_STATE_FETCH)"
    and "tx_id_agrees (fst (start_connect_task_relay x (t, m)))
           (state (fst (start_connect_task_relay x (t, m))) = CLONE_STATE_FETCH)"
    and "tx_id_agrees (fst (snd (start_index_or_transfer x (t, m))))
           (state (fst (snd (start_index_or_transfer x (t, m)))) = CLONE_STATE_FETCH)"
    and "tx_id_agrees (fst (transition_state x CLONE_STATE_DONE (t, m)))
           (state (fst (transition_state x CLONE_STATE_DONE (t, m))) = CLONE_STATE_FETCH)"
  using assms state_start_checkout [of x repo "(t, m)"] tx_start_index_or_transfer [of x "(t, m)"]
  by (auto simp: tx_id_agrees_def tx_start_checkout tx_start_connect
      state_start_connect_task_relay tx_transition_state state_transition_state)

lemma restart_task_agrees:
  assumes "map_of (tasks (restart_task x row m)) rid = Some t'"
  shows "map_of (tasks m) rid = Some t' \<or> tx_id_agrees t' (state t' = CLONE_STATE_FETCH)"
proof -
  let ?task = "clone_task_new (c_repo_id row) (c_dest_id row) (c_repo_name row) (c_token row)
                 (c_worktree_parent row) (c_passwd row) (c_server_addr row)
                 (c_server_port row) (c_email row)"
  have f: "tx_id ?task = None" "state ?task = CLONE_STATE_INIT"
    by (simp_all add: clone_task_new_def)
  show ?thesis
    using assms fresh_agrees [OF f, where x = x and m = m]
    by (auto simp: restart_task_def Let_def map_of_store_task' tasks_handlers
        split: option.splits if_splits)
qed

lemma init_agrees:
  assumes "map_of (tasks (snd (seaf_clone_manager_init x (seaf_clone_manager_new rows)))) rid = Some t"
  shows "tx_id_agrees t (state t = CLONE_STATE_FETCH)"
proof -
  let ?P = "\<lambda>m1 :: SeafCloneManager. \<forall>rid t. map_of (tasks m1) rid = Some t
              \<longrightarrow> tx_id_agrees t (state t = CLONE_STATE_FETCH)"
  have "?P (snd (seaf_clone_manager_init x (seaf_clone_manager_new rows)))"
  proof (rule init_induct)
    show "?P (seaf_clone_manager_new rows)"
      by (simp add: seaf_clone_manager_new_def)
  next
    fix m1 row
    assume "?P m1"
    then show "?P (restart_task x row m1)"
      using restart_task_agrees [of x row m1] by blast
  qed
  then show ?thesis using assms by blast
qed

lemma tasks_store_task:
  "tasks (store_task key tm) = AList.update key (fst tm) (tasks (snd tm))"
  by (cases tm) (simp add: store_task_def)

lemma add_task_agrees:
  assumes "seaf_clone_manager_add_task x m rid pid rname tok pw w addr port mail = (r, m')"
  shows "(r \<noteq> Inr rid \<and> tasks m' = tasks m) \<or>
         (\<exists>t. r = Inr rid \<and> tasks m' = AList.update rid t (tasks m) \<and>
              tx_id_agrees t (state t = CLONE_STATE_FETCH))"
proof -
  let ?mw = "make_worktree x m w False"
  have tm: "tasks (snd ?mw) = tasks m" by (rule tasks_make_worktree)
  show ?thesis
  proof (cases "fst ?mw")
    case (Inl e)
    then show ?thesis using assms tm
      by (cases ?mw) (auto simp: seaf_clone_manager_add_task_def Let_def split: if_splits)
  next
    case (Inr wtree)
    obtain m1 where mw: "?mw = (Inr wtree, m1)" using Inr by (cases ?mw) auto
    have t1: "tasks m1 = tasks m" using tm mw by simp
    let ?task = "clone_task_new rid pid rname tok wtree pw addr port mail"
    have rid: "repo_id ?task = rid" by (simp add: clone_task_new_def)
    have f: "tx_id ?task = None" "state ?task = CLONE_STATE_INIT"
      by (simp_all add: clone_task_new_def)
    obtain rc m2 where sv: "save_task_to_db x ?task m1 = (rc, m2)"
      by (cases "save_task_to_db x ?task m1")
    have t2: "tasks m2 = tasks m" using sv t1
      by (auto simp: save_task_to_db_def Let_def split: if_splits)
    show ?thesis
      using assms mw sv t2 rid fresh_agrees [OF f, where x = x and m = m2]
      by (auto simp: seaf_clone_manager_add_task_def Let_def tasks_store_task tasks_handlers
          repo_id_start_checkout repo_id_start_connect repo_id_start_index_or_transfer
          split: if_splits)
  qed
qed


lemma on_repo_fetched_task:
  assumes f: "on_repo_fetched x tx_task m = Inr m'" and c: "t_is_clone tx_task"
  shows "\<exists>task tm. map_of (tasks m) (t_repo_id tx_task) = Some task \<and>
           m' = store_task (t_repo_id tx_task) tm \<and>
           (tm = transition_state x CLONE_STATE_CANCELED (task, m) \<or>
            (\<exists>er. tm = transition_to_error x er (task, m)) \<or>
            (\<exists>repo mm. tm = start_checkout x repo (task, mm)))"
proof -
  obtain task where k: "map_of (tasks m) (t_repo_id tx_task) = Some task"
    using f c by (auto simp: on_repo_fetched_def split: option.splits)
  show ?thesis
  proof (cases "t_state tx_task = TASK_STATE_CANCELED")
    case True
    then have "m' = store_task (t_repo_id tx_task) (transition_state x CLONE_STATE_CANCELED (task, m))"
      using f c k by (simp add: on_repo_fetched_def)
    then show ?thesis using k by blast
  next
    case nc: False
    show ?thesis
    proof (cases "t_state tx_task = TASK_STATE_ERROR")
      case True
      then have "m' = store_task (t_repo_id tx_task) (transition_to_error x CLONE_ERROR_FETCH (task, m))"
        using f c k nc by (simp add: on_repo_fetched_def)
      then show ?thesis using k by blast
    next
      case ne: False
      show ?thesis
      proof (cases "seaf_repo_manager_get_repo x (t_repo_id tx_task)")
        case None
        then have "m' = store_task (t_repo_id tx_task)
                          (transition_to_error x CLONE_ERROR_INTERNAL (task, m))"
          using f c k nc ne by (simp add: on_repo_fetched_def)
        then show ?thesis using k by blast
      next
        case (Some repo)
        then have "\<exists>mm. m' = store_task (t_repo_id tx_task) (start_checkout x repo (task, mm))"
          using f c k nc ne by (simp add: on_repo_fetched_def) blast
        then show ?thesis using k by blast
      qed
    qed
  qed
qed

lemma pulse_agrees:
  assumes a: "\<forall>t. map_of (tasks m) rid = Some t \<longrightarrow> tx_id_agrees t seen"
    and t': "map_of (tasks (check_connect_pulse x m)) rid = Some t'"
  shows "tx_id_agrees t' (seen \<or> state t' = CLONE_STATE_FETCH)"
proof -
  let ?P = "\<lambda>m1 :: SeafCloneManager. \<forall>t1. map_of (tasks m1) rid = Some t1
              \<longrightarrow> tx_id_agrees t1 (seen \<or> state t1 = CLONE_STATE_FETCH)"
  have "?P (check_connect_pulse x m)"
  proof (rule pulse_induct)
    show "?P m" using a agrees_same by blast
  next
    fix m1 :: SeafCloneManager and key task
    assume p: "?P m1" and k: "map_of (tasks m1) key = Some task"
      and c: "state task = CLONE_STATE_CONNECT"
    let ?tm = "continue_task_when_peer_connected x (task, m1)"
    show "?P (store_task key ?tm)"
    proof (cases "key = rid")
      case False
      then show ?thesis using p by (simp add: map_of_store_task' tasks_continue)
    next
      case True
      have ag: "tx_id_agrees task (seen \<or> state task = CLONE_STATE_FETCH)"
        using p k True by blast
      then have none: "tx_id task = None" and ns: "\<not> seen"
        using c by (auto simp: tx_id_agrees_def)
      have "tx_id_agrees (fst ?tm) (seen \<or> state (fst ?tm) = CLONE_STATE_FETCH)"
      proof (cases "ccnet_get_peer x (peer_id task) = Some PEER_CONNECTED")
        case False
        then have "?tm = (task, m1)"
          by (auto simp: continue_task_when_peer_connected_def
              split: option.splits peer_net_state.splits)
        then show ?thesis using ag by simp
      next
        case True
        then have "?tm = snd (start_index_or_transfer x (task, m1))"
          by (simp add: continue_task_when_peer_connected_def)
        then show ?thesis
          using tx_start_index_or_transfer [of x "(task, m1)"] none ns c
          by (auto simp: tx_id_agrees_def)
      qed
      then show ?thesis using True by (simp add: map_of_store_task')
    qed
  qed
  then show ?thesis using t' by blast
qed

lemma step_agrees:
  assumes e: "expected ev m" and s: "step x ev m = Inr m'"
    and a: "\<forall>t. map_of (tasks m) rid = Some t \<longrightarrow> tx_id_agrees t seen"
    and t': "map_of (tasks m') rid = Some t'"
  shows "tx_id_agrees t' ((seen \<and> \<not> admits x ev m rid) \<or> task_in m' rid [CLONE_STATE_FETCH])"
proof -
  have fetch: "task_in m' rid [CLONE_STATE_FETCH] = (state t' = CLONE_STATE_FETCH)"
    using t' by (rule task_in_fetch)
  have "tx_id_agrees t' ((seen \<and> \<not> admits x ev m rid) \<or> state t' = CLONE_STATE_FETCH)"
  proof (cases ev)
    case (Add_task r pid rname tok pw w addr port mail)
    obtain res m2 where ad: "seaf_clone_manager_add_task x m r pid rname tok pw w addr port mail = (res, m2)"
      by (cases "seaf_clone_manager_add_task x m r pid rname tok pw w addr port mail")
    have m': "m' = m2" using s Add_task ad
      by (auto simp: step_def split: sum.splits failure.splits)
    have adm: "admits x ev m rid = (r = rid \<and> res = Inr r)"
      using Add_task ad by (simp add: admits_def)
    from add_task_agrees [OF ad] show ?thesis
    proof (elim disjE conjE exE)
      assume "res \<noteq> Inr r" and "tasks m2 = tasks m"
      then have "\<not> admits x ev m rid" and "tx_id_agrees t' seen"
        using adm a t' m' by auto
      then show ?thesis using agrees_same [of t' seen] by simp
    next
      fix t
      assume res: "res = Inr r" and up: "tasks m2 = AList.update r t (tasks m)"
        and ag: "tx_id_agrees t (state t = CLONE_STATE_FETCH)"
      show ?thesis
      proof (cases "r = rid")
        case True
        then have "admits x ev m rid" and "t' = t"
          using adm res up t' m' by (auto simp: update_conv')
        then show ?thesis using ag by simp
      next
        case False
        then have "\<not> admits x ev m rid" and "tx_id_agrees t' seen"
          using adm up a t' m' by (auto simp: update_conv')
        then show ?thesis using agrees_same [of t' seen] by simp
      qed
    qed
  next
    case (Cancel_task key)
    then have m': "m' = snd (seaf_clone_manager_cancel_task x m key)"
      using s by (simp add: step_def)
    have adm: "\<not> admits x ev m rid" using Cancel_task by (simp add: admits_def)
    show ?thesis
      using cancel_task_after [of x m key rid t'] t' m' a adm agrees_same
        agrees_keep [where t' = t' and seen = seen]
      by auto
  next
    case (Remove_task key)
    then have m': "m' = snd (seaf_clone_manager_remove_task x m key)"
      using s by (simp add: step_def)
    have adm: "\<not> admits x ev m rid" using Remove_task by (simp add: admits_def)
    show ?thesis
      using remove_task_after [of x m key rid t'] t' m' a adm agrees_same
      by auto
  next
    case Connect_pulse
    then have m': "m' = check_connect_pulse x m" using s by (simp add: step_def)
    have adm: "\<not> admits x ev m rid" using Connect_pulse by (simp add: admits_def)
    show ?thesis
      using pulse_agrees [OF a, of x t'] t' m' adm by simp
  next
    case (Index_files_finished key)
    have adm: "\<not> admits x ev m rid" using Index_files_finished by (simp add: admits_def)
    obtain task where k: "map_of (tasks m) key = Some task"
      and m': "m' = store_task key (index_files_done x (fst (index_files_job x (task, m)))
                                     (snd (index_files_job x (task, m))))"
      using step_index_files_finished [OF s [unfolded Index_files_finished]] by blast
    show ?thesis
    proof (cases "key = rid")
      case False
      then show ?thesis using a t' m' adm agrees_same
        by (auto simp: map_of_store_task' tasks_handlers)
    next
      case True
      let ?j = "index_files_job x (task, m)"
      have st: "state task \<in> {CLONE_STATE_INDEX, CLONE_STATE_CANCEL_PENDING}"
        using e Index_files_finished k by (auto simp: expected_def task_in_def)
      have ag: "tx_id_agrees task seen" using a k True by blast
      have eq: "t' = fst (index_files_done x (fst ?j) (snd ?j))"
        using t' m' True by (simp add: map_of_store_task')
      show ?thesis
        using tx_index_files_done [of x "fst ?j" "snd ?j"] st ag adm
        by (auto simp: eq [symmetric] tx_index_files_job index_files_job_state
            tx_id_agrees_def)
    qed
  next
    case (Merge_job_finished key repo)
    have adm: "\<not> admits x ev m rid" using Merge_job_finished by (simp add: admits_def)
    obtain task tm' where k: "map_of (tasks m) key = Some task"
      and d: "merge_job_done x repo (fst (merge_job x repo False (task, m)))
                (snd (merge_job x repo False (task, m))) = Inr tm'"
      and m': "m' = store_task key tm'"
      using step_merge_job_finished [OF s [unfolded Merge_job_finished]] by blast
    show ?thesis
    proof (cases "key = rid")
      case False
      then show ?thesis using a t' m' adm agrees_same tasks_merge_job_done [OF d]
        by (auto simp: map_of_store_task' tasks_handlers)
    next
      case True
      have ag: "tx_id_agrees task seen" using a k True by blast
      have eq: "t' = fst tm'" using t' m' True by (simp add: map_of_store_task')
      show ?thesis
        using tx_merge_job_done [OF d] agrees_keep [OF ag, of t'] adm
        by (auto simp: eq merge_job_tx)
    qed
  next
    case (Repo_fetched tx_task)
    have adm: "\<not> admits x ev m rid" using Repo_fetched by (simp add: admits_def)
    have f: "on_repo_fetched x tx_task m = Inr m'" using s Repo_fetched by (simp add: step_def)
    show ?thesis
    proof (cases "t_is_clone tx_task \<and> t_repo_id tx_task = rid")
      case False
      then have "map_of (tasks m) rid = Some t'"
        using f t'
        by (auto simp: on_repo_fetched_def map_of_store_task' tasks_handlers
            split: option.splits if_splits)
      then show ?thesis using a adm agrees_same by auto
    next
      case True
      then obtain task where k: "map_of (tasks m) rid = Some task"
        using f by (auto simp: on_repo_fetched_def split: option.splits)
      have ag: "tx_id_agrees task seen" using a k by blast
      have sc: "tx_id (fst (start_checkout x repo (task, mm))) = tx_id task \<and>
                state (fst (start_checkout x repo (task, mm)))
                  \<in> {CLONE_STATE_CANCELED, CLONE_STATE_ERROR, CLONE_STATE_CHECKOUT,
                      CLONE_STATE_MERGE}" for repo mm
        using state_start_checkout [of x repo "(task, mm)"] by (auto simp: tx_start_checkout)
      have ts: "tx_id (fst (transition_state x CLONE_STATE_CANCELED (task, m))) = tx_id task \<and>
                state (fst (transition_state x CLONE_STATE_CANCELED (task, m)))
                  \<in> {CLONE_STATE_CANCELED, CLONE_STATE_ERROR, CLONE_STATE_CHECKOUT,
                      CLONE_STATE_MERGE}"
        by (simp add: tx_transition_state state_transition_state)
      have te: "tx_id (fst (transition_to_error x er (task, m))) = tx_id task \<and>
                state (fst (transition_to_error x er (task, m)))
                  \<in> {CLONE_STATE_CANCELED, CLONE_STATE_ERROR, CLONE_STATE_CHECKOUT,
                      CLONE_STATE_MERGE}" for er
        by (simp add: tx_transition_to_error state_transition_to_error)
      have "t' = fst (transition_state x CLONE_STATE_CANCELED (task, m)) \<or>
            (\<exists>er. t' = fst (transition_to_error x er (task, m))) \<or>
            (\<exists>repo mm. t' = fst (start_checkout x repo (task, mm)))"
      proof -
        obtain task0 tm where k0: "map_of (tasks m) (t_repo_id tx_task) = Some task0"
          and m': "m' = store_task (t_repo_id tx_task) tm"
          and tm: "tm = transition_state x CLONE_STATE_CANCELED (task0, m) \<or>
                   (\<exists>er. tm = transition_to_error x er (task0, m)) \<or>
                   (\<exists>repo mm. tm = start_checkout x repo (task0, mm))"
          using on_repo_fetched_task [OF f] True by blast
        have "task0 = task" using k k0 True by simp
        moreover have "t' = fst tm" using t' m' True by (simp add: map_of_store_task')
        ultimately show ?thesis using tm by blast
      qed
      then have "tx_id t' = tx_id task \<and>
            state t' \<in> {CLONE_STATE_CANCELED, CLONE_STATE_ERROR, CLONE_STATE_CHECKOUT,
                        CLONE_STATE_MERGE}"
        using sc ts te by blast
      then show ?thesis
        using agrees_keep [OF ag, of t'] adm by auto
    qed
  next
    case (Checkout_done b key)
    have adm: "\<not> admits x ev m rid" using Checkout_done by (simp add: admits_def)
    have f: "on_checkout_done x b key m = Inr m'" using s Checkout_done by (simp add: step_def)
    show ?thesis
    proof (cases "key = rid")
      case False
      then have "map_of (tasks m) rid = Some t'"
        using f t'
        by (auto simp: on_checkout_done_def map_of_store_task' tasks_handlers
            split: option.splits if_splits)
      then show ?thesis using a adm agrees_same by auto
    next
      case True
      then obtain task where k: "map_of (tasks m) rid = Some task"
        using f by (auto simp: on_checkout_done_def split: option.splits)
      have ag: "tx_id_agrees task seen" using a k by blast
      have "tx_id t' = tx_id task \<and>
            state t' \<in> {CLONE_STATE_CANCELED, CLONE_STATE_ERROR, CLONE_STATE_DONE}"
        using f t' True k
        by (auto simp: on_checkout_done_def map_of_store_task' tx_transition_state
            tx_transition_to_error state_transition_state state_transition_to_error
            split: if_splits)
      then show ?thesis
        using agrees_keep [OF ag, of t'] adm by auto
    qed
  qed
  then show ?thesis by (simp add: fetch)
qed

lemma run_agrees:
  assumes "all_expected evs m" and "run evs m = Inr m'"
    and "\<forall>t. map_of (tasks m) rid = Some t \<longrightarrow> tx_id_agrees t seen"
    and "map_of (tasks m') rid = Some t'"
  shows "tx_id_agrees t' (has_entered_fetch rid seen evs m)"
  using assms
proof (induction evs arbitrary: m seen)
  case Nil
  then show ?case by simp
next
  case (Cons a evs)
  obtain x ev where a: "a = (x, ev)" by (cases a)
  obtain m1 where s: "step x ev m = Inr m1"
    using Cons.prems(2) a by (auto split: sum.splits)
  have e: "expected ev m" using Cons.prems(1) a by simp
  let ?seen = "(seen \<and> \<not> admits x ev m rid) \<or> task_in m1 rid [CLONE_STATE_FETCH]"
  have "\<forall>t. map_of (tasks m1) rid = Some t \<longrightarrow> tx_id_agrees t ?seen"
    using step_agrees [OF e s Cons.prems(3)] by blast
  then have "tx_id_agrees t' (has_entered_fetch rid ?seen evs m1)"
    using Cons.IH [of m1 ?seen] Cons.prems(1,2,4) a s by auto
  then show ?case using a s by simp
qed

text \<open>
  C9. Start the clone manager on any table and let any run of expected events follow. Then
  every task in the hash table that is in FETCH has its \<open>tx_id\<close> set, and the \<open>tx_id\<close>
  of a task in the hash table is set exactly when the task has been in FETCH after start-up
  or after some event since it was put in the table.
\<close>

theorem tx_id_set_iff_entered_fetch:
  assumes "all_expected evs (snd (seaf_clone_manager_init x0 (seaf_clone_manager_new rows)))"
    and "run evs (snd (seaf_clone_manager_init x0 (seaf_clone_manager_new rows))) = Inr m'"
    and "map_of (tasks m') rid = Some task"
  shows "(state task = CLONE_STATE_FETCH \<longrightarrow> tx_id task \<noteq> None) \<and>
         (tx_id task \<noteq> None \<longleftrightarrow>
            has_entered_fetch rid
              (task_in (snd (seaf_clone_manager_init x0 (seaf_clone_manager_new rows))) rid
                 [CLONE_STATE_FETCH])
              evs (snd (seaf_clone_manager_init x0 (seaf_clone_manager_new rows))))"
proof -
  let ?m0 = "snd (seaf_clone_manager_init x0 (seaf_clone_manager_new rows))"
  have "\<forall>t. map_of (tasks ?m0) rid = Some t
          \<longrightarrow> tx_id_agrees t (task_in ?m0 rid [CLONE_STATE_FETCH])"
    using init_agrees [of x0 rows rid] by (auto simp: task_in_fetch)
  from run_agrees [OF assms(1,2) this assms(3)]
  show ?thesis by (auto simp: tx_id_agrees_def)
qed

theorem tx_id_set_iff_entered_fetch_witness:
  "all_expected [(example_extern, example_add_task)]
     (snd (seaf_clone_manager_init example_extern (seaf_clone_manager_new []))) \<and>
   (\<exists>m' task. run [(example_extern, example_add_task)]
                 (snd (seaf_clone_manager_init example_extern (seaf_clone_manager_new [])))
               = Inr m' \<and>
              map_of (tasks m') example_id = Some task \<and>
              state task = CLONE_STATE_FETCH \<and> tx_id task \<noteq> None) \<and>
   has_entered_fetch example_id
     (task_in (snd (seaf_clone_manager_init example_extern (seaf_clone_manager_new [])))
        example_id [CLONE_STATE_FETCH])
     [(example_extern, example_add_task)]
     (snd (seaf_clone_manager_init example_extern (seaf_clone_manager_new []))) \<and>
   all_expected [(extern_files, example_add_task), (extern_files, Cancel_task example_id)]
     (snd (seaf_clone_manager_init example_extern (seaf_clone_manager_new []))) \<and>
   (\<exists>m' task. run [(extern_files, example_add_task), (extern_files, Cancel_task example_id)]
                 (snd (seaf_clone_manager_init example_extern (seaf_clone_manager_new [])))
               = Inr m' \<and>
              map_of (tasks m') example_id = Some task \<and>
              state task = CLONE_STATE_CANCEL_PENDING \<and> tx_id task = None)"
proof -
  let ?m0 = "snd (seaf_clone_manager_init example_extern (seaf_clone_manager_new []))"
  let ?e1 = "[(example_extern, example_add_task)]"
  let ?e2 = "[(extern_files, example_add_task), (extern_files, Cancel_task example_id)]"
  have x1: "all_expected ?e1 ?m0" by code_simp
  have "case run ?e1 ?m0 of Inl f \<Rightarrow> False | Inr m' \<Rightarrow> task_in m' example_id [CLONE_STATE_FETCH]"
    by code_simp
  then obtain m1 t1 where r1: "run ?e1 ?m0 = Inr m1"
    and t1: "map_of (tasks m1) example_id = Some t1" and s1: "state t1 = CLONE_STATE_FETCH"
    by (auto simp: task_in_def split: sum.splits option.splits)
  note a1 = tx_id_set_iff_entered_fetch [OF x1 r1 t1]
  have tx1: "tx_id t1 \<noteq> None" using a1 s1 by blast
  then have h1: "has_entered_fetch example_id (task_in ?m0 example_id [CLONE_STATE_FETCH]) ?e1 ?m0"
    using a1 by blast
  have x2: "all_expected ?e2 ?m0" by code_simp
  have "case run ?e2 ?m0 of
          Inl f \<Rightarrow> False | Inr m' \<Rightarrow> task_in m' example_id [CLONE_STATE_CANCEL_PENDING]"
    by code_simp
  then obtain m2 t2 where r2: "run ?e2 ?m0 = Inr m2"
    and t2: "map_of (tasks m2) example_id = Some t2"
    and s2: "state t2 = CLONE_STATE_CANCEL_PENDING"
    by (auto simp: task_in_def split: sum.splits option.splits)
  have "\<not> has_entered_fetch example_id (task_in ?m0 example_id [CLONE_STATE_FETCH]) ?e2 ?m0"
    by code_simp
  then have tx2: "tx_id t2 = None"
    using tx_id_set_iff_entered_fetch [OF x2 r2 t2] by blast
  show ?thesis
    using x1 r1 t1 s1 tx1 h1 x2 r2 t2 s2 tx2 by blast
qed

end
